theory Spec2Isabelle
  imports Main
begin

section \<open>JavaScript values used by the server\<close>

text \<open>
  Strings are lists of characters with code points below 256.  Truthiness of a string
  is non-emptiness; \<open>null\<close> and \<open>undefined\<close> are \<open>None\<close>.
\<close>

definition truthy_str :: "string option \<Rightarrow> bool" where
  "truthy_str v = (case v of None \<Rightarrow> False | Some s \<Rightarrow> s \<noteq> [])"

text \<open>The idiom \<open>x || d\<close> for a string-or-null \<open>x\<close> and a string default \<open>d\<close>.\<close>

definition or_str :: "string option \<Rightarrow> string \<Rightarrow> string" where
  "or_str v d = (case v of None \<Rightarrow> d | Some s \<Rightarrow> if s \<noteq> [] then s else d)"

text \<open>The idiom \<open>x || undefined\<close>.\<close>

definition or_undefined :: "string option \<Rightarrow> string option" where
  "or_undefined v = (case v of None \<Rightarrow> None | Some s \<Rightarrow> if s \<noteq> [] then Some s else None)"

text \<open>
  JSON values, as \<open>JSON.parse\<close> returns them and \<open>JSON.stringify\<close> takes them.  An
  object is the list of its own properties, each key once; a property that is
  \<open>undefined\<close> is left out, and a lookup that finds nothing is \<open>None\<close>.  Numbers are the
  integers (version numbers, counts and statuses are all the code computes with).
\<close>

datatype json =
    JNull
  | JBool bool
  | JNum int
  | JStr string
  | JArr "json list"
  | JObj "(string \<times> json) list"

text \<open>
  The numbers that \<open>parseInt\<close> returns: \<open>NaN\<close>, an integer-valued double (given by its
  exact value; plus and minus zero are both \<open>Finite 0\<close>) or an infinity.
\<close>

datatype number = NaN | Finite int | Infinity | NegInfinity

text \<open>
  Values that the code throws.  \<open>Error m\<close> is \<open>new Error(m)\<close> and stands for every
  \<open>Error\<close> instance outside the taxonomy too (a \<open>TypeError\<close> of \<open>fetch\<close>, a
  \<open>SyntaxError\<close> of the JSON parser).  The taxonomy classes are constructed with the
  arguments the client passes.  \<open>Thrown v\<close> is a thrown value that is no \<open>Error\<close>.
\<close>

datatype thrown =
    Error string
  | RateLimitError string number
  | AuthenticationError string
  | ForbiddenError string
  | NotFoundError string string
  | ConfluenceApiError json nat
  | Thrown json

section \<open>Tenant credentials (src/types/env.ts)\<close>

record TenantCredentials =
  domain :: string
  email :: string
  apiToken :: string
  cloudId :: "string option"

text \<open>
  The request headers are modelled by what \<open>headers.get(name)\<close> returns: \<open>None\<close> for
  a header that is not there, \<open>Some v\<close> for one that is (and \<open>v\<close> may be empty).
\<close>

type_synonym headers = "string \<Rightarrow> string option"

definition parseTenantCredentials :: "headers \<Rightarrow> TenantCredentials" where
  "parseTenantCredentials hdrs =
     \<lparr> domain = or_str (hdrs ''X-Confluence-Domain'') '''',
       email = or_str (hdrs ''X-Confluence-Email'') '''',
       apiToken = or_str (hdrs ''X-Confluence-API-Token'') '''',
       cloudId = or_undefined (hdrs ''X-Confluence-Cloud-ID'') \<rparr>"

definition msg_missing_domain :: string where
  "msg_missing_domain =
     ''Missing credentials. Provide X-Confluence-Domain or X-Confluence-Cloud-ID header.''"

definition msg_missing_email :: string where
  "msg_missing_email = ''Missing credentials. Provide X-Confluence-Email header.''"

definition msg_missing_token :: string where
  "msg_missing_token = ''Missing credentials. Provide X-Confluence-API-Token header.''"

text \<open>
  \<open>validateCredentials\<close> returns nothing or throws \<open>new Error(message)\<close>; the thrown
  error is the \<open>Inl\<close> branch.
\<close>

definition validateCredentials :: "TenantCredentials \<Rightarrow> thrown + unit" where
  "validateCredentials credentials =
     (if domain credentials = [] \<and> \<not> truthy_str (cloudId credentials)
      then Inl (Error msg_missing_domain)
      else if email credentials = [] then Inl (Error msg_missing_email)
      else if apiToken credentials = [] then Inl (Error msg_missing_token)
      else Inr ())"

text \<open>A header is usable when it is there and not empty.\<close>

definition header_given :: "headers \<Rightarrow> string \<Rightarrow> bool" where
  "header_given hdrs name = truthy_str (hdrs name)"

text \<open>A request that sends the domain header empty and no cloud-ID header.\<close>

definition example_headers :: headers where
  "example_headers =
     (\<lambda>name. None)(''X-Confluence-Domain'' := Some [],
       ''X-Confluence-Email'' := Some ''a@b.c'',
       ''X-Confluence-API-Token'' := Some ''t'')"

section \<open>Runtime functions the client calls\<close>

text \<open>Decimal text of a natural number, as \<open>String(n)\<close> and template strings give it.\<close>

definition digit_char :: "nat \<Rightarrow> char" where
  "digit_char d = ''0123456789'' ! d"

function show_nat :: "nat \<Rightarrow> string" where
  "show_nat n =
     (if n < 10 then [digit_char n] else show_nat (n div 10) @ [digit_char (n mod 10)])"
  by pat_completeness auto
termination
  by (relation "measure id") auto

declare show_nat.simps [simp del]

definition show_int :: "int \<Rightarrow> string" where
  "show_int i = (if i < 0 then CHR ''-'' # show_nat (nat (- i)) else show_nat (nat i))"

text \<open>
  The double nearest to an integer (ties to the even significand), as the runtime
  converts a mathematical value to a number: integers below \<open>2^53\<close> in magnitude are
  exact, larger ones keep 53 significant bits, and from \<open>2^1024\<close> on the result is an
  infinity.
\<close>

function bit_length :: "int \<Rightarrow> nat" where
  "bit_length n = (if n \<le> 0 then 0 else Suc (bit_length (n div 2)))"
  by pat_completeness auto
termination
  by (relation "measure nat") auto

declare bit_length.simps [simp del]

definition to_Number :: "int \<Rightarrow> number" where
  "to_Number i =
     (let a = \<bar>i\<bar>
      in if a < 2 ^ 53 then Finite i
         else
           (let e = bit_length a - 53;
                q = a div 2 ^ e;
                r = a mod 2 ^ e;
                half = 2 ^ (e - 1);
                q' = (if half < r \<or> (r = half \<and> odd q) then q + 1 else q);
                v = q' * 2 ^ e
            in if 2 ^ 1024 \<le> v then (if i < 0 then NegInfinity else Infinity)
               else Finite (if i < 0 then - v else v)))"

text \<open>
  \<open>parseInt(s, 10)\<close>: leading white space is skipped, then an optional sign, then the
  longest run of decimal digits; with no digit the result is \<open>NaN\<close>, otherwise the
  number for the digits' value.  The white space characters with code points below 256
  are TAB, LF, VT, FF, CR, SP and NBSP.  (Beyond twenty significant digits the language
  lets an implementation round the digits first; the model rounds the exact value, as
  the V8 runtime does.)
\<close>

definition is_white_space :: "char \<Rightarrow> bool" where
  "is_white_space c = ((of_char c :: nat) \<in> {9, 10, 11, 12, 13, 32, 160})"

definition is_digit :: "char \<Rightarrow> bool" where
  "is_digit c = (48 \<le> (of_char c :: nat) \<and> (of_char c :: nat) \<le> 57)"

definition digits_value :: "string \<Rightarrow> int" where
  "digits_value ds = foldl (\<lambda>acc c. acc * 10 + (int (of_char c) - 48)) 0 ds"

definition parseInt10 :: "string \<Rightarrow> number" where
  "parseInt10 s =
     (let t = dropWhile is_white_space s;
          negative = (case t of [] \<Rightarrow> False | c # _ \<Rightarrow> c = CHR ''-'');
          u = (case t of [] \<Rightarrow> [] | c # r \<Rightarrow> if c = CHR ''-'' \<or> c = CHR ''+'' then r else t);
          ds = takeWhile is_digit u
      in if ds = [] then NaN
         else to_Number (if negative then - digits_value ds else digits_value ds))"

text \<open>\<open>btoa\<close>: base64 of a byte string, with padding.\<close>

definition base64_char :: "nat \<Rightarrow> char" where
  "base64_char i =
     ''ABCDEFGHIJKLMNOPQRSTUVWXYZabcdefghijklmnopqrstuvwxyz0123456789+/'' ! i"

fun btoa :: "string \<Rightarrow> string" where
  "btoa [] = []"
| "btoa [a] =
     (let x = (of_char a :: nat)
      in [base64_char (x div 4), base64_char ((x mod 4) * 16), CHR ''='', CHR ''=''])"
| "btoa [a, b] =
     (let x = (of_char a :: nat); y = (of_char b :: nat)
      in [base64_char (x div 4), base64_char ((x mod 4) * 16 + y div 16),
          base64_char ((y mod 16) * 4), CHR ''=''])"
| "btoa (a # b # c # rest) =
     (let x = (of_char a :: nat); y = (of_char b :: nat); z = (of_char c :: nat)
      in [base64_char (x div 4), base64_char ((x mod 4) * 16 + y div 16),
          base64_char ((y mod 16) * 4 + z div 64), base64_char (z mod 64)] @ btoa rest)"

subsection \<open>Reading parsed JSON\<close>

text \<open>
  \<open>v.name\<close> for a value \<open>v\<close> that is neither \<open>null\<close> nor \<open>undefined\<close> and a name that
  no prototype defines (the client reads \<open>message\<close>, \<open>error\<close> and \<open>errors\<close>): only an
  object can hold it.
\<close>

fun js_prop :: "json \<Rightarrow> string \<Rightarrow> json option" where
  "js_prop (JObj kvs) name = map_of kvs name"
| "js_prop _ name = None"

text \<open>\<open>v[0]\<close> for a value \<open>v\<close> that is neither \<open>null\<close> nor \<open>undefined\<close>.\<close>

fun js_first :: "json \<Rightarrow> json option" where
  "js_first (JArr xs) = (case xs of [] \<Rightarrow> None | x # _ \<Rightarrow> Some x)"
| "js_first (JObj kvs) = map_of kvs ''0''"
| "js_first (JStr s) = (case s of [] \<Rightarrow> None | c # _ \<Rightarrow> Some (JStr [c]))"
| "js_first _ = None"

text \<open>Optional chaining: \<open>v?.[0]\<close> and \<open>v?.name\<close> on a possibly missing \<open>v\<close>.\<close>

definition opt_first :: "json option \<Rightarrow> json option" where
  "opt_first v = (case v of None \<Rightarrow> None | Some JNull \<Rightarrow> None | Some w \<Rightarrow> js_first w)"

definition opt_prop :: "json option \<Rightarrow> string \<Rightarrow> json option" where
  "opt_prop v name = (case v of None \<Rightarrow> None | Some JNull \<Rightarrow> None | Some w \<Rightarrow> js_prop w name)"

fun truthy :: "json \<Rightarrow> bool" where
  "truthy JNull = False"
| "truthy (JBool b) = b"
| "truthy (JNum n) = (n \<noteq> 0)"
| "truthy (JStr s) = (s \<noteq> [])"
| "truthy (JArr xs) = True"
| "truthy (JObj kvs) = True"

text \<open>\<open>a || b\<close> where \<open>b\<close> is a value that is there.\<close>

definition js_or :: "json option \<Rightarrow> json \<Rightarrow> json" where
  "js_or a b = (case a of None \<Rightarrow> b | Some v \<Rightarrow> if truthy v then v else b)"

text \<open>
  The first truthy one of a list of candidates that may be missing, or else the
  default: the way the specification words the choice of the error message.
\<close>

fun first_truthy :: "json option list \<Rightarrow> json \<Rightarrow> json" where
  "first_truthy [] d = d"
| "first_truthy (None # rest) d = first_truthy rest d"
| "first_truthy (Some v # rest) d = (if truthy v then v else first_truthy rest d)"

section \<open>The request engine (client.ts)\<close>

text \<open>
  What \<open>fetch\<close> is called with, and what it gives back.  The body is the value handed to
  \<open>JSON.stringify\<close>.  Of a response the engine reads the status, the \<open>Retry-After\<close>
  header (\<open>headers.get\<close>: \<open>None\<close> when the header is not there) and the body, which is
  given here as the outcome of parsing it as JSON: the parsed value, or the message of
  the \<open>SyntaxError\<close>.
\<close>

record RequestInit =
  req_method :: "string option"
  req_body :: "json option"
  req_headers :: "(string \<times> string) list"

record http_request =
  url :: string
  http_method :: "string option"
  http_headers :: "(string \<times> string) list"
  http_body :: "json option"

record response =
  status_code :: nat
  retry_after_header :: "string option"
  body_json :: "string + json"

datatype fetch_result = Rejected thrown | Resolved response

type_synonym fetch = "http_request \<Rightarrow> fetch_result"

definition response_ok :: "response \<Rightarrow> bool" where
  "response_ok r = (200 \<le> status_code r \<and> status_code r \<le> 299)"

definition baseUrl :: "TenantCredentials \<Rightarrow> string" where
  "baseUrl credentials = ''https://'' @ domain credentials @ ''.atlassian.net/wiki/api/v2''"

definition searchBaseUrl :: "TenantCredentials \<Rightarrow> string" where
  "searchBaseUrl credentials = ''https://'' @ domain credentials @ ''.atlassian.net/wiki/rest/api''"

definition getAuthHeaders :: "TenantCredentials \<Rightarrow> (string \<times> string) list" where
  "getAuthHeaders credentials =
     [(''Authorization'', ''Basic '' @ btoa (email credentials @ '':'' @ apiToken credentials)),
      (''Content-Type'', ''application/json''),
      (''Accept'', ''application/json'')]"

text \<open>Object spread \<open>{...a, ...b}\<close>: the keys of \<open>a\<close> in order, then the new keys of \<open>b\<close>.\<close>

definition spread :: "(string \<times> string) list \<Rightarrow> (string \<times> string) list \<Rightarrow> (string \<times> string) list" where
  "spread a b =
     map (\<lambda>(k, v). (k, case map_of b k of None \<Rightarrow> v | Some w \<Rightarrow> w)) a
     @ filter (\<lambda>(k, v). map_of a k = None) b"

text \<open>
  The message of the generic error: the body is parsed, and the first truthy one of
  \<open>message\<close>, \<open>error\<close> and \<open>errors?.[0]?.message\<close> replaces the default.  A body that does
  not parse, or that parses to \<open>null\<close> (reading a property of it throws), leaves the
  default.
\<close>

definition api_error_message :: "string + json \<Rightarrow> nat \<Rightarrow> json" where
  "api_error_message errorBody st =
     (let message = JStr (''API error: '' @ show_nat st)
      in case errorBody of
           Inl _ \<Rightarrow> message
         | Inr JNull \<Rightarrow> message
         | Inr errorJson \<Rightarrow>
             js_or (js_prop errorJson ''message'')
               (js_or (js_prop errorJson ''error'')
                 (js_or (opt_prop (opt_first (js_prop errorJson ''errors'')) ''message'')
                    message)))"

text \<open>The request that \<open>request\<close> hands to \<open>fetch\<close>.\<close>

definition outgoing_request :: "TenantCredentials \<Rightarrow> string \<Rightarrow> RequestInit \<Rightarrow> bool \<Rightarrow> http_request" where
  "outgoing_request credentials endpoint options useSearchApi =
     (let base = (if useSearchApi then searchBaseUrl credentials else baseUrl credentials)
      in \<lparr> url = base @ endpoint,
           http_method = req_method options,
           http_headers = spread (getAuthHeaders credentials) (req_headers options),
           http_body = req_body options \<rparr>)"

text \<open>
  What \<open>request\<close> does with the outcome of \<open>fetch\<close>: \<open>Inl\<close> is what it throws,
  \<open>Inr None\<close> is the \<open>undefined\<close> of a 204 and \<open>Inr (Some v)\<close> the parsed body.
\<close>

definition respond :: "string \<Rightarrow> fetch_result \<Rightarrow> thrown + json option" where
  "respond endpoint outcome =
     (case outcome of
        Rejected e \<Rightarrow> Inl e
      | Resolved response \<Rightarrow>
          if status_code response = 429 then
            Inl (RateLimitError ''Rate limit exceeded''
                  (case retry_after_header response of
                     None \<Rightarrow> Finite 60
                   | Some retryAfter \<Rightarrow>
                       if retryAfter \<noteq> [] then parseInt10 retryAfter else Finite 60))
          else if status_code response = 401 then
            Inl (AuthenticationError ''Authentication failed. Check your credentials.'')
          else if status_code response = 403 then
            Inl (ForbiddenError ''Access denied. Check your permissions.'')
          else if status_code response = 404 then
            Inl (NotFoundError ''Resource'' endpoint)
          else if \<not> response_ok response then
            Inl (ConfluenceApiError (api_error_message (body_json response) (status_code response))
                  (status_code response))
          else if status_code response = 204 then Inr None
          else (case body_json response of
                  Inl syntax_error \<Rightarrow> Inl (Error syntax_error)
                | Inr v \<Rightarrow> Inr (Some v)))"

text \<open>
  \<open>request\<close> calls \<open>fetch\<close> once.  Every function that reaches the network returns,
  next to its result, the list of the requests it sent.
\<close>

definition request :: "fetch \<Rightarrow> TenantCredentials \<Rightarrow> string \<Rightarrow> RequestInit \<Rightarrow> bool
    \<Rightarrow> (thrown + json option) \<times> http_request list" where
  "request fetch credentials endpoint options useSearchApi =
     (let req = outgoing_request credentials endpoint options useSearchApi
      in (respond endpoint (fetch req), [req]))"

text \<open>The options of a call that passes none.\<close>

definition no_options :: RequestInit where
  "no_options = \<lparr> req_method = None, req_body = None, req_headers = [] \<rparr>"

text \<open>A server that gives the same outcome to every request.\<close>

definition always :: "fetch_result \<Rightarrow> fetch" where
  "always outcome = (\<lambda>_. outcome)"

subsection \<open>Connection test\<close>

text \<open>
  \<open>error instanceof Error\<close>: the taxonomy classes extend \<open>Error\<close>.  Their \<open>message\<close>
  property is set by constructors in utils/errors.ts; it is the parameter
  \<open>taxonomy_message\<close> below.
\<close>

fun instanceof_Error :: "thrown \<Rightarrow> bool" where
  "instanceof_Error (Thrown v) = False"
| "instanceof_Error _ = True"

fun error_message :: "(thrown \<Rightarrow> string) \<Rightarrow> thrown \<Rightarrow> string" where
  "error_message taxonomy_message (Error m) = m"
| "error_message taxonomy_message e = taxonomy_message e"

record connection_status =
  connected :: bool
  message :: string

text \<open>\<open>try { ... } catch (error) { ... }\<close> around a computation that may throw.\<close>

definition try_catch :: "thrown + 'a \<Rightarrow> (thrown \<Rightarrow> thrown + 'a) \<Rightarrow> thrown + 'a" where
  "try_catch body handler = (case body of Inl error \<Rightarrow> handler error | Inr v \<Rightarrow> Inr v)"

definition testConnection :: "fetch \<Rightarrow> TenantCredentials \<Rightarrow> (thrown \<Rightarrow> string)
    \<Rightarrow> (thrown + connection_status) \<times> http_request list" where
  "testConnection fetch credentials taxonomy_message =
     (case request fetch credentials ''/spaces?limit=1'' no_options False of
        (outcome, sent) \<Rightarrow>
          (try_catch
             (case outcome of
                Inl error \<Rightarrow> Inl error
              | Inr _ \<Rightarrow>
                  Inr \<lparr> connected = True, message = ''Successfully connected to Confluence'' \<rparr>)
             (\<lambda>error. Inr \<lparr> connected = False,
                             message = (if instanceof_Error error
                                        then error_message taxonomy_message error
                                        else ''Connection failed'') \<rparr>),
           sent))"

subsection \<open>Sample inputs\<close>

definition acme_credentials :: TenantCredentials where
  "acme_credentials =
     \<lparr> domain = ''acme'', email = ''a@b.c'', apiToken = ''t'', cloudId = None \<rparr>"

text \<open>Credentials that pass validation with a cloud ID and no domain.\<close>

definition cloud_only_credentials :: TenantCredentials where
  "cloud_only_credentials =
     \<lparr> domain = [], email = ''a@b.c'', apiToken = ''t'', cloudId = Some ''11111111-2222'' \<rparr>"

text \<open>A 429 response whose \<open>Retry-After\<close> header is there and empty, and one with 30.\<close>

definition rate_limited_empty :: response where
  "rate_limited_empty =
     \<lparr> status_code = 429, retry_after_header = Some [], body_json = Inl ''Unexpected end of JSON input'' \<rparr>"

definition rate_limited_30 :: response where
  "rate_limited_30 =
     \<lparr> status_code = 429, retry_after_header = Some ''30'', body_json = Inl ''Unexpected end of JSON input'' \<rparr>"

definition server_error_500 :: response where
  "server_error_500 =
     \<lparr> status_code = 500, retry_after_header = None,
       body_json = Inr (JObj [(''errors'', JArr [JObj [(''message'', JStr ''boom'')]])]) \<rparr>"

text \<open>
  A 409 whose body has an empty \<open>message\<close>, an \<open>error\<close> text and an \<open>errors\<close> list, and a
  502 whose body is no JSON.
\<close>

definition conflict_409 :: response where
  "conflict_409 =
     \<lparr> status_code = 409, retry_after_header = None,
       body_json = Inr (JObj [(''message'', JStr []), (''error'', JStr ''Version conflict''),
                              (''errors'', JArr [JObj [(''message'', JStr ''boom'')]])]) \<rparr>"

definition bad_gateway_502 :: response where
  "bad_gateway_502 =
     \<lparr> status_code = 502, retry_after_header = None,
       body_json = Inl ''Unexpected token < in JSON at position 0'' \<rparr>"


section \<open>The client (client.ts)\<close>

subsection \<open>Query strings\<close>

text \<open>
  \<open>URLSearchParams\<close>: an ordered list of name-value pairs.  \<open>set\<close> overwrites the first
  pair of that name and drops the others, or appends; \<open>toString\<close> is the
  \<open>application/x-www-form-urlencoded\<close> serialisation: a character from U+0080 on is
  first encoded in UTF-8 (two bytes, for the code points below 256), and every byte
  other than a letter, a digit, \<open>*\<close>, \<open>-\<close>, \<open>.\<close> and \<open>_\<close> is percent-encoded, a space
  becoming \<open>+\<close>.
\<close>

definition hex_digit :: "nat \<Rightarrow> char" where
  "hex_digit d = ''0123456789ABCDEF'' ! d"

definition is_alnum :: "char \<Rightarrow> bool" where
  "is_alnum c =
     (let n = (of_char c :: nat)
      in (48 \<le> n \<and> n \<le> 57) \<or> (65 \<le> n \<and> n \<le> 90) \<or> (97 \<le> n \<and> n \<le> 122))"

definition percent_byte :: "nat \<Rightarrow> string" where
  "percent_byte b = [CHR ''%'', hex_digit (b div 16), hex_digit (b mod 16)]"

definition form_encode_char :: "char \<Rightarrow> string" where
  "form_encode_char c =
     (let n = (of_char c :: nat)
      in if c = CHR '' '' then ''+''
         else if is_alnum c \<or> c = CHR ''*'' \<or> c = CHR ''-'' \<or> c = CHR ''.'' \<or> c = CHR ''_''
         then [c]
         else if n < 128 then percent_byte n
         else percent_byte (192 + n div 64) @ percent_byte (128 + n mod 64))"

definition form_encode :: "string \<Rightarrow> string" where
  "form_encode s = concat (map form_encode_char s)"

type_synonym search_params = "(string \<times> string) list"

fun sp_set :: "search_params \<Rightarrow> string \<Rightarrow> string \<Rightarrow> search_params" where
  "sp_set [] name v = [(name, v)]"
| "sp_set ((k, w) # rest) name v =
     (if k = name then (name, v) # filter (\<lambda>(k', w'). k' \<noteq> name) rest
      else (k, w) # sp_set rest name v)"

fun join :: "string \<Rightarrow> string list \<Rightarrow> string" where
  "join sep [] = []"
| "join sep [x] = x"
| "join sep (x # y # ys) = x @ sep @ join sep (y # ys)"

definition sp_toString :: "search_params \<Rightarrow> string" where
  "sp_toString sp = join ''&'' (map (\<lambda>(k, v). form_encode k @ ''='' @ form_encode v) sp)"

text \<open>
  The parameter objects of the list operations: the own properties in order, \<open>None\<close>
  for a property whose value is \<open>undefined\<close>.  A missing object is the empty list
  (\<open>params || {}\<close>).
\<close>

datatype param = PStr string | PNum int | PBool bool

fun param_String :: "param \<Rightarrow> string" where
  "param_String (PStr s) = s"
| "param_String (PNum n) = show_int n"
| "param_String (PBool b) = (if b then ''true'' else ''false'')"

fun param_truthy :: "param \<Rightarrow> bool" where
  "param_truthy (PStr s) = (s \<noteq> [])"
| "param_truthy (PNum n) = (n \<noteq> 0)"
| "param_truthy (PBool b) = b"

type_synonym query_params = "(string \<times> param option) list"

definition buildQueryString :: "query_params \<Rightarrow> string" where
  "buildQueryString params =
     (let searchParams =
            foldl (\<lambda>sp (key, v).
                     case v of
                       None \<Rightarrow> sp
                     | Some w \<Rightarrow>
                         if key = ''bodyFormat'' \<and> param_truthy w
                         then sp_set sp ''body-format'' (param_String w)
                         else sp_set sp key (param_String w))
                  [] params;
          queryString = sp_toString searchParams
      in if queryString \<noteq> [] then ''?'' @ queryString else [])"

subsection \<open>Reading a URL\<close>





subsection \<open>The operations\<close>

definition with_method :: "string \<Rightarrow> RequestInit" where
  "with_method m = \<lparr> req_method = Some m, req_body = None, req_headers = [] \<rparr>"

definition with_json :: "string \<Rightarrow> json \<Rightarrow> RequestInit" where
  "with_json m input = \<lparr> req_method = Some m, req_body = Some input, req_headers = [] \<rparr>"

text \<open>The third argument of \<open>search\<close>: \<open>limit\<close>, \<open>cursor\<close> and \<open>excerpt\<close>, each optional.\<close>

record search_options =
  limit :: "int option"
  cursor :: "string option"
  excerpt :: "bool option"

text \<open>
  What a method does with the value \<open>request\<close> returns: hand it on (nothing to
  model), drop it (the \<open>void\<close> methods), or read its \<open>results\<close> property, which throws a
  \<open>TypeError\<close> on \<open>undefined\<close> and \<open>null\<close>.
\<close>

definition dropped :: "(thrown + json option) \<times> http_request list
    \<Rightarrow> (thrown + json option) \<times> http_request list" where
  "dropped r =
     (case r of (outcome, sent) \<Rightarrow>
        ((case outcome of Inl error \<Rightarrow> Inl error | Inr v \<Rightarrow> Inr None), sent))"

definition read_results :: "(thrown + json option) \<times> http_request list
    \<Rightarrow> (thrown + json option) \<times> http_request list" where
  "read_results r =
     (case r of (outcome, sent) \<Rightarrow>
        ((case outcome of
            Inl error \<Rightarrow> Inl error
          | Inr None \<Rightarrow> Inl (Error ''Cannot read properties of undefined (reading 'results')'')
          | Inr (Some JNull) \<Rightarrow> Inl (Error ''Cannot read properties of null (reading 'results')'')
          | Inr (Some v) \<Rightarrow> Inr (js_prop v ''results'')), sent))"

text \<open>The methods of \<open>ConfluenceClientImpl\<close>, in the order of the source.\<close>

definition listSpaces :: "fetch \<Rightarrow> TenantCredentials \<Rightarrow> query_params
    \<Rightarrow> (thrown + json option) \<times> http_request list" where
  "listSpaces fetch credentials params =
     request fetch credentials
       (''/spaces'' @ buildQueryString params)
       no_options False"

definition getSpace :: "fetch \<Rightarrow> TenantCredentials \<Rightarrow> string
    \<Rightarrow> (thrown + json option) \<times> http_request list" where
  "getSpace fetch credentials spaceId =
     request fetch credentials (''/spaces/'' @ spaceId) no_options False"

definition createSpace :: "fetch \<Rightarrow> TenantCredentials \<Rightarrow> json
    \<Rightarrow> (thrown + json option) \<times> http_request list" where
  "createSpace fetch credentials input =
     request fetch credentials (''/spaces'') (with_json ''POST'' input) False"

definition deleteSpace :: "fetch \<Rightarrow> TenantCredentials \<Rightarrow> string
    \<Rightarrow> (thrown + json option) \<times> http_request list" where
  "deleteSpace fetch credentials spaceId =
     dropped
      (request fetch credentials
       (''/spaces/'' @ spaceId)
       (with_method ''DELETE'') False)"

definition listPages :: "fetch \<Rightarrow> TenantCredentials \<Rightarrow> query_params
    \<Rightarrow> (thrown + json option) \<times> http_request list" where
  "listPages fetch credentials params =
     request fetch credentials
       (''/pages'' @ buildQueryString params)
       no_options False"

definition getPage :: "fetch \<Rightarrow> TenantCredentials \<Rightarrow> string \<Rightarrow> string option
    \<Rightarrow> (thrown + json option) \<times> http_request list" where
  "getPage fetch credentials pageId bodyFormat =
     request fetch credentials
       (''/pages/'' @ pageId @ (if truthy_str bodyFormat then ''?body-format='' @ the bodyFormat else []))
       no_options False"

definition createPage :: "fetch \<Rightarrow> TenantCredentials \<Rightarrow> json
    \<Rightarrow> (thrown + json option) \<times> http_request list" where
  "createPage fetch credentials input =
     request fetch credentials (''/pages'') (with_json ''POST'' input) False"

definition updatePage :: "fetch \<Rightarrow> TenantCredentials \<Rightarrow> string \<Rightarrow> json
    \<Rightarrow> (thrown + json option) \<times> http_request list" where
  "updatePage fetch credentials pageId input =
     request fetch credentials (''/pages/'' @ pageId) (with_json ''PUT'' input) False"

definition deletePage :: "fetch \<Rightarrow> TenantCredentials \<Rightarrow> string \<Rightarrow> bool
    \<Rightarrow> (thrown + json option) \<times> http_request list" where
  "deletePage fetch credentials pageId purge =
     dropped
      (request fetch credentials
       (''/pages/'' @ pageId @ (if purge then ''?purge=true'' else []))
       (with_method ''DELETE'') False)"

definition getPagesBySpaceId :: "fetch \<Rightarrow> TenantCredentials \<Rightarrow> string \<Rightarrow> query_params
    \<Rightarrow> (thrown + json option) \<times> http_request list" where
  "getPagesBySpaceId fetch credentials spaceId params =
     request fetch credentials
       (''/spaces/'' @ spaceId @ ''/pages'' @ buildQueryString params)
       no_options False"

definition getPageChildren :: "fetch \<Rightarrow> TenantCredentials \<Rightarrow> string \<Rightarrow> query_params
    \<Rightarrow> (thrown + json option) \<times> http_request list" where
  "getPageChildren fetch credentials pageId params =
     request fetch credentials
       (''/pages/'' @ pageId @ ''/children'' @ buildQueryString params)
       no_options False"

definition getPageAncestors :: "fetch \<Rightarrow> TenantCredentials \<Rightarrow> string
    \<Rightarrow> (thrown + json option) \<times> http_request list" where
  "getPageAncestors fetch credentials pageId =
     read_results
      (request fetch credentials
       (''/pages/'' @ pageId @ ''/ancestors'')
       no_options False)"

definition getPageDescendants :: "fetch \<Rightarrow> TenantCredentials \<Rightarrow> string \<Rightarrow> query_params
    \<Rightarrow> (thrown + json option) \<times> http_request list" where
  "getPageDescendants fetch credentials pageId params =
     request fetch credentials
       (''/pages/'' @ pageId @ ''/descendants'' @ buildQueryString params)
       no_options False"

definition getPageLabels :: "fetch \<Rightarrow> TenantCredentials \<Rightarrow> string \<Rightarrow> query_params
    \<Rightarrow> (thrown + json option) \<times> http_request list" where
  "getPageLabels fetch credentials pageId params =
     request fetch credentials
       (''/pages/'' @ pageId @ ''/labels'' @ buildQueryString params)
       no_options False"

definition addPageLabels :: "fetch \<Rightarrow> TenantCredentials \<Rightarrow> string \<Rightarrow> json
    \<Rightarrow> (thrown + json option) \<times> http_request list" where
  "addPageLabels fetch credentials pageId labels =
     read_results
      (request fetch credentials
       (''/pages/'' @ pageId @ ''/labels'')
       (with_json ''POST'' labels) False)"

definition removePageLabel :: "fetch \<Rightarrow> TenantCredentials \<Rightarrow> string \<Rightarrow> string
    \<Rightarrow> (thrown + json option) \<times> http_request list" where
  "removePageLabel fetch credentials pageId labelId =
     dropped
      (request fetch credentials
       (''/pages/'' @ pageId @ ''/labels/'' @ labelId)
       (with_method ''DELETE'') False)"

definition getPageLikes :: "fetch \<Rightarrow> TenantCredentials \<Rightarrow> string \<Rightarrow> query_params
    \<Rightarrow> (thrown + json option) \<times> http_request list" where
  "getPageLikes fetch credentials pageId params =
     request fetch credentials
       (''/pages/'' @ pageId @ ''/likes'' @ buildQueryString params)
       no_options False"

definition likePage :: "fetch \<Rightarrow> TenantCredentials \<Rightarrow> string
    \<Rightarrow> (thrown + json option) \<times> http_request list" where
  "likePage fetch credentials pageId =
     dropped
      (request fetch credentials
       (''/pages/'' @ pageId @ ''/likes'')
       (with_method ''POST'') False)"

definition unlikePage :: "fetch \<Rightarrow> TenantCredentials \<Rightarrow> string
    \<Rightarrow> (thrown + json option) \<times> http_request list" where
  "unlikePage fetch credentials pageId =
     dropped
      (request fetch credentials
       (''/pages/'' @ pageId @ ''/likes'')
       (with_method ''DELETE'') False)"

definition getPageVersions :: "fetch \<Rightarrow> TenantCredentials \<Rightarrow> string \<Rightarrow> query_params
    \<Rightarrow> (thrown + json option) \<times> http_request list" where
  "getPageVersions fetch credentials pageId params =
     request fetch credentials
       (''/pages/'' @ pageId @ ''/versions'' @ buildQueryString params)
       no_options False"

definition getPageVersion :: "fetch \<Rightarrow> TenantCredentials \<Rightarrow> string \<Rightarrow> int
    \<Rightarrow> (thrown + json option) \<times> http_request list" where
  "getPageVersion fetch credentials pageId versionNumber =
     request fetch credentials
       (''/pages/'' @ pageId @ ''/versions/'' @ show_int versionNumber)
       no_options False"

definition getPageProperties :: "fetch \<Rightarrow> TenantCredentials \<Rightarrow> string \<Rightarrow> query_params
    \<Rightarrow> (thrown + json option) \<times> http_request list" where
  "getPageProperties fetch credentials pageId params =
     request fetch credentials
       (''/pages/'' @ pageId @ ''/properties'' @ buildQueryString params)
       no_options False"

definition getPageProperty :: "fetch \<Rightarrow> TenantCredentials \<Rightarrow> string \<Rightarrow> string
    \<Rightarrow> (thrown + json option) \<times> http_request list" where
  "getPageProperty fetch credentials pageId propertyKey =
     request fetch credentials
       (''/pages/'' @ pageId @ ''/properties/'' @ propertyKey)
       no_options False"

definition createPageProperty :: "fetch \<Rightarrow> TenantCredentials \<Rightarrow> string \<Rightarrow> json
    \<Rightarrow> (thrown + json option) \<times> http_request list" where
  "createPageProperty fetch credentials pageId input =
     request fetch credentials
       (''/pages/'' @ pageId @ ''/properties'')
       (with_json ''POST'' input) False"

definition updatePageProperty :: "fetch \<Rightarrow> TenantCredentials \<Rightarrow> string \<Rightarrow> string \<Rightarrow> json
    \<Rightarrow> (thrown + json option) \<times> http_request list" where
  "updatePageProperty fetch credentials pageId propertyKey input =
     request fetch credentials
       (''/pages/'' @ pageId @ ''/properties/'' @ propertyKey)
       (with_json ''PUT'' input) False"

definition deletePageProperty :: "fetch \<Rightarrow> TenantCredentials \<Rightarrow> string \<Rightarrow> string
    \<Rightarrow> (thrown + json option) \<times> http_request list" where
  "deletePageProperty fetch credentials pageId propertyKey =
     dropped
      (request fetch credentials
       (''/pages/'' @ pageId @ ''/properties/'' @ propertyKey)
       (with_method ''DELETE'') False)"

definition getPageAttachments :: "fetch \<Rightarrow> TenantCredentials \<Rightarrow> string \<Rightarrow> query_params
    \<Rightarrow> (thrown + json option) \<times> http_request list" where
  "getPageAttachments fetch credentials pageId params =
     request fetch credentials
       (''/pages/'' @ pageId @ ''/attachments'' @ buildQueryString params)
       no_options False"

definition getPageComments :: "fetch \<Rightarrow> TenantCredentials \<Rightarrow> string \<Rightarrow> query_params
    \<Rightarrow> (thrown + json option) \<times> http_request list" where
  "getPageComments fetch credentials pageId params =
     request fetch credentials
       (''/pages/'' @ pageId @ ''/comments'' @ buildQueryString params)
       no_options False"

definition getPageOperations :: "fetch \<Rightarrow> TenantCredentials \<Rightarrow> string
    \<Rightarrow> (thrown + json option) \<times> http_request list" where
  "getPageOperations fetch credentials pageId =
     read_results
      (request fetch credentials
       (''/pages/'' @ pageId @ ''/operations'')
       no_options False)"

definition listBlogPosts :: "fetch \<Rightarrow> TenantCredentials \<Rightarrow> query_params
    \<Rightarrow> (thrown + json option) \<times> http_request list" where
  "listBlogPosts fetch credentials params =
     request fetch credentials
       (''/blogposts'' @ buildQueryString params)
       no_options False"

definition getBlogPost :: "fetch \<Rightarrow> TenantCredentials \<Rightarrow> string \<Rightarrow> string option
    \<Rightarrow> (thrown + json option) \<times> http_request list" where
  "getBlogPost fetch credentials blogPostId bodyFormat =
     request fetch credentials
       (''/blogposts/'' @ blogPostId @ (if truthy_str bodyFormat then ''?body-format='' @ the bodyFormat else []))
       no_options False"

definition createBlogPost :: "fetch \<Rightarrow> TenantCredentials \<Rightarrow> json
    \<Rightarrow> (thrown + json option) \<times> http_request list" where
  "createBlogPost fetch credentials input =
     request fetch credentials (''/blogposts'') (with_json ''POST'' input) False"

definition updateBlogPost :: "fetch \<Rightarrow> TenantCredentials \<Rightarrow> string \<Rightarrow> json
    \<Rightarrow> (thrown + json option) \<times> http_request list" where
  "updateBlogPost fetch credentials blogPostId input =
     request fetch credentials
       (''/blogposts/'' @ blogPostId)
       (with_json ''PUT'' input) False"

definition deleteBlogPost :: "fetch \<Rightarrow> TenantCredentials \<Rightarrow> string \<Rightarrow> bool
    \<Rightarrow> (thrown + json option) \<times> http_request list" where
  "deleteBlogPost fetch credentials blogPostId purge =
     dropped
      (request fetch credentials
       (''/blogposts/'' @ blogPostId @ (if purge then ''?purge=true'' else []))
       (with_method ''DELETE'') False)"

definition getBlogPostsBySpaceId :: "fetch \<Rightarrow> TenantCredentials \<Rightarrow> string \<Rightarrow> query_params
    \<Rightarrow> (thrown + json option) \<times> http_request list" where
  "getBlogPostsBySpaceId fetch credentials spaceId params =
     request fetch credentials
       (''/spaces/'' @ spaceId @ ''/blogposts'' @ buildQueryString params)
       no_options False"

definition getBlogPostLabels :: "fetch \<Rightarrow> TenantCredentials \<Rightarrow> string \<Rightarrow> query_params
    \<Rightarrow> (thrown + json option) \<times> http_request list" where
  "getBlogPostLabels fetch credentials blogPostId params =
     request fetch credentials
       (''/blogposts/'' @ blogPostId @ ''/labels'' @ buildQueryString params)
       no_options False"

definition addBlogPostLabels :: "fetch \<Rightarrow> TenantCredentials \<Rightarrow> string \<Rightarrow> json
    \<Rightarrow> (thrown + json option) \<times> http_request list" where
  "addBlogPostLabels fetch credentials blogPostId labels =
     read_results
      (request fetch credentials
       (''/blogposts/'' @ blogPostId @ ''/labels'')
       (with_json ''POST'' labels) False)"

definition removeBlogPostLabel :: "fetch \<Rightarrow> TenantCredentials \<Rightarrow> string \<Rightarrow> string
    \<Rightarrow> (thrown + json option) \<times> http_request list" where
  "removeBlogPostLabel fetch credentials blogPostId labelId =
     dropped
      (request fetch credentials
       (''/blogposts/'' @ blogPostId @ ''/labels/'' @ labelId)
       (with_method ''DELETE'') False)"

definition getBlogPostVersions :: "fetch \<Rightarrow> TenantCredentials \<Rightarrow> string \<Rightarrow> query_params
    \<Rightarrow> (thrown + json option) \<times> http_request list" where
  "getBlogPostVersions fetch credentials blogPostId params =
     request fetch credentials
       (''/blogposts/'' @ blogPostId @ ''/versions'' @ buildQueryString params)
       no_options False"

definition getBlogPostAttachments :: "fetch \<Rightarrow> TenantCredentials \<Rightarrow> string \<Rightarrow> query_params
    \<Rightarrow> (thrown + json option) \<times> http_request list" where
  "getBlogPostAttachments fetch credentials blogPostId params =
     request fetch credentials
       (''/blogposts/'' @ blogPostId @ ''/attachments'' @ buildQueryString params)
       no_options False"

definition getBlogPostComments :: "fetch \<Rightarrow> TenantCredentials \<Rightarrow> string \<Rightarrow> query_params
    \<Rightarrow> (thrown + json option) \<times> http_request list" where
  "getBlogPostComments fetch credentials blogPostId params =
     request fetch credentials
       (''/blogposts/'' @ blogPostId @ ''/comments'' @ buildQueryString params)
       no_options False"

definition listComments :: "fetch \<Rightarrow> TenantCredentials \<Rightarrow> query_params
    \<Rightarrow> (thrown + json option) \<times> http_request list" where
  "listComments fetch credentials params =
     request fetch credentials
       (''/comments'' @ buildQueryString params)
       no_options False"

definition getComment :: "fetch \<Rightarrow> TenantCredentials \<Rightarrow> string \<Rightarrow> string option
    \<Rightarrow> (thrown + json option) \<times> http_request list" where
  "getComment fetch credentials commentId bodyFormat =
     request fetch credentials
       (''/comments/'' @ commentId @ (if truthy_str bodyFormat then ''?body-format='' @ the bodyFormat else []))
       no_options False"

definition createComment :: "fetch \<Rightarrow> TenantCredentials \<Rightarrow> json
    \<Rightarrow> (thrown + json option) \<times> http_request list" where
  "createComment fetch credentials input =
     request fetch credentials (''/comments'') (with_json ''POST'' input) False"

definition updateComment :: "fetch \<Rightarrow> TenantCredentials \<Rightarrow> string \<Rightarrow> json
    \<Rightarrow> (thrown + json option) \<times> http_request list" where
  "updateComment fetch credentials commentId input =
     request fetch credentials
       (''/comments/'' @ commentId)
       (with_json ''PUT'' input) False"

definition deleteComment :: "fetch \<Rightarrow> TenantCredentials \<Rightarrow> string
    \<Rightarrow> (thrown + json option) \<times> http_request list" where
  "deleteComment fetch credentials commentId =
     dropped
      (request fetch credentials
       (''/comments/'' @ commentId)
       (with_method ''DELETE'') False)"

definition listAttachments :: "fetch \<Rightarrow> TenantCredentials \<Rightarrow> query_params
    \<Rightarrow> (thrown + json option) \<times> http_request list" where
  "listAttachments fetch credentials params =
     request fetch credentials
       (''/attachments'' @ buildQueryString params)
       no_options False"

definition getAttachment :: "fetch \<Rightarrow> TenantCredentials \<Rightarrow> string
    \<Rightarrow> (thrown + json option) \<times> http_request list" where
  "getAttachment fetch credentials attachmentId =
     request fetch credentials (''/attachments/'' @ attachmentId) no_options False"

definition deleteAttachment :: "fetch \<Rightarrow> TenantCredentials \<Rightarrow> string \<Rightarrow> bool
    \<Rightarrow> (thrown + json option) \<times> http_request list" where
  "deleteAttachment fetch credentials attachmentId purge =
     dropped
      (request fetch credentials
       (''/attachments/'' @ attachmentId @ (if purge then ''?purge=true'' else []))
       (with_method ''DELETE'') False)"

definition getAttachmentLabels :: "fetch \<Rightarrow> TenantCredentials \<Rightarrow> string \<Rightarrow> query_params
    \<Rightarrow> (thrown + json option) \<times> http_request list" where
  "getAttachmentLabels fetch credentials attachmentId params =
     request fetch credentials
       (''/attachments/'' @ attachmentId @ ''/labels'' @ buildQueryString params)
       no_options False"

definition listLabels :: "fetch \<Rightarrow> TenantCredentials \<Rightarrow> query_params
    \<Rightarrow> (thrown + json option) \<times> http_request list" where
  "listLabels fetch credentials params =
     request fetch credentials
       (''/labels'' @ buildQueryString params)
       no_options False"

definition getLabel :: "fetch \<Rightarrow> TenantCredentials \<Rightarrow> string
    \<Rightarrow> (thrown + json option) \<times> http_request list" where
  "getLabel fetch credentials labelId =
     request fetch credentials (''/labels/'' @ labelId) no_options False"

definition getLabelPages :: "fetch \<Rightarrow> TenantCredentials \<Rightarrow> string \<Rightarrow> query_params
    \<Rightarrow> (thrown + json option) \<times> http_request list" where
  "getLabelPages fetch credentials labelId params =
     request fetch credentials
       (''/labels/'' @ labelId @ ''/pages'' @ buildQueryString params)
       no_options False"

definition getLabelBlogPosts :: "fetch \<Rightarrow> TenantCredentials \<Rightarrow> string \<Rightarrow> query_params
    \<Rightarrow> (thrown + json option) \<times> http_request list" where
  "getLabelBlogPosts fetch credentials labelId params =
     request fetch credentials
       (''/labels/'' @ labelId @ ''/blogposts'' @ buildQueryString params)
       no_options False"

definition listTasks :: "fetch \<Rightarrow> TenantCredentials \<Rightarrow> query_params
    \<Rightarrow> (thrown + json option) \<times> http_request list" where
  "listTasks fetch credentials params =
     request fetch credentials
       (''/tasks'' @ buildQueryString params)
       no_options False"

definition getTask :: "fetch \<Rightarrow> TenantCredentials \<Rightarrow> string
    \<Rightarrow> (thrown + json option) \<times> http_request list" where
  "getTask fetch credentials taskId =
     request fetch credentials (''/tasks/'' @ taskId) no_options False"

definition updateTask :: "fetch \<Rightarrow> TenantCredentials \<Rightarrow> string \<Rightarrow> json
    \<Rightarrow> (thrown + json option) \<times> http_request list" where
  "updateTask fetch credentials taskId input =
     request fetch credentials (''/tasks/'' @ taskId) (with_json ''PUT'' input) False"

definition listUsers :: "fetch \<Rightarrow> TenantCredentials \<Rightarrow> query_params
    \<Rightarrow> (thrown + json option) \<times> http_request list" where
  "listUsers fetch credentials params =
     request fetch credentials
       (''/users'' @ buildQueryString params)
       no_options False"

definition getUser :: "fetch \<Rightarrow> TenantCredentials \<Rightarrow> string
    \<Rightarrow> (thrown + json option) \<times> http_request list" where
  "getUser fetch credentials accountId =
     request fetch credentials (''/users/'' @ accountId) no_options False"

definition listCustomContent :: "fetch \<Rightarrow> TenantCredentials \<Rightarrow> query_params
    \<Rightarrow> (thrown + json option) \<times> http_request list" where
  "listCustomContent fetch credentials params =
     request fetch credentials
       (''/custom-content'' @ buildQueryString params)
       no_options False"

definition getCustomContent :: "fetch \<Rightarrow> TenantCredentials \<Rightarrow> string \<Rightarrow> string option
    \<Rightarrow> (thrown + json option) \<times> http_request list" where
  "getCustomContent fetch credentials customContentId bodyFormat =
     request fetch credentials
       (''/custom-content/'' @ customContentId @ (if truthy_str bodyFormat then ''?body-format='' @ the bodyFormat else []))
       no_options False"

definition createCustomContent :: "fetch \<Rightarrow> TenantCredentials \<Rightarrow> json
    \<Rightarrow> (thrown + json option) \<times> http_request list" where
  "createCustomContent fetch credentials input =
     request fetch credentials (''/custom-content'') (with_json ''POST'' input) False"

definition updateCustomContent :: "fetch \<Rightarrow> TenantCredentials \<Rightarrow> string \<Rightarrow> json
    \<Rightarrow> (thrown + json option) \<times> http_request list" where
  "updateCustomContent fetch credentials customContentId input =
     request fetch credentials
       (''/custom-content/'' @ customContentId)
       (with_json ''PUT'' input) False"

definition deleteCustomContent :: "fetch \<Rightarrow> TenantCredentials \<Rightarrow> string \<Rightarrow> bool
    \<Rightarrow> (thrown + json option) \<times> http_request list" where
  "deleteCustomContent fetch credentials customContentId purge =
     dropped
      (request fetch credentials
       (''/custom-content/'' @ customContentId @ (if purge then ''?purge=true'' else []))
       (with_method ''DELETE'') False)"

definition getSpacePermissions :: "fetch \<Rightarrow> TenantCredentials \<Rightarrow> string \<Rightarrow> query_params
    \<Rightarrow> (thrown + json option) \<times> http_request list" where
  "getSpacePermissions fetch credentials spaceId params =
     request fetch credentials
       (''/spaces/'' @ spaceId @ ''/permissions'' @ buildQueryString params)
       no_options False"

definition createSpacePermission :: "fetch \<Rightarrow> TenantCredentials \<Rightarrow> string \<Rightarrow> json
    \<Rightarrow> (thrown + json option) \<times> http_request list" where
  "createSpacePermission fetch credentials spaceId input =
     request fetch credentials
       (''/spaces/'' @ spaceId @ ''/permissions'')
       (with_json ''POST'' input) False"

definition deleteSpacePermission :: "fetch \<Rightarrow> TenantCredentials \<Rightarrow> string \<Rightarrow> string
    \<Rightarrow> (thrown + json option) \<times> http_request list" where
  "deleteSpacePermission fetch credentials spaceId permissionId =
     dropped
      (request fetch credentials
       (''/spaces/'' @ spaceId @ ''/permissions/'' @ permissionId)
       (with_method ''DELETE'') False)"

definition getSpaceProperties :: "fetch \<Rightarrow> TenantCredentials \<Rightarrow> string \<Rightarrow> query_params
    \<Rightarrow> (thrown + json option) \<times> http_request list" where
  "getSpaceProperties fetch credentials spaceId params =
     request fetch credentials
       (''/spaces/'' @ spaceId @ ''/properties'' @ buildQueryString params)
       no_options False"

definition getSpaceProperty :: "fetch \<Rightarrow> TenantCredentials \<Rightarrow> string \<Rightarrow> string
    \<Rightarrow> (thrown + json option) \<times> http_request list" where
  "getSpaceProperty fetch credentials spaceId propertyKey =
     request fetch credentials
       (''/spaces/'' @ spaceId @ ''/properties/'' @ propertyKey)
       no_options False"

definition createSpaceProperty :: "fetch \<Rightarrow> TenantCredentials \<Rightarrow> string \<Rightarrow> json
    \<Rightarrow> (thrown + json option) \<times> http_request list" where
  "createSpaceProperty fetch credentials spaceId input =
     request fetch credentials
       (''/spaces/'' @ spaceId @ ''/properties'')
       (with_json ''POST'' input) False"

definition updateSpaceProperty :: "fetch \<Rightarrow> TenantCredentials \<Rightarrow> string \<Rightarrow> string \<Rightarrow> json
    \<Rightarrow> (thrown + json option) \<times> http_request list" where
  "updateSpaceProperty fetch credentials spaceId propertyKey input =
     request fetch credentials
       (''/spaces/'' @ spaceId @ ''/properties/'' @ propertyKey)
       (with_json ''PUT'' input) False"

definition deleteSpaceProperty :: "fetch \<Rightarrow> TenantCredentials \<Rightarrow> string \<Rightarrow> string
    \<Rightarrow> (thrown + json option) \<times> http_request list" where
  "deleteSpaceProperty fetch credentials spaceId propertyKey =
     dropped
      (request fetch credentials
       (''/spaces/'' @ spaceId @ ''/properties/'' @ propertyKey)
       (with_method ''DELETE'') False)"

definition listDatabases :: "fetch \<Rightarrow> TenantCredentials \<Rightarrow> query_params
    \<Rightarrow> (thrown + json option) \<times> http_request list" where
  "listDatabases fetch credentials params =
     request fetch credentials
       (''/databases'' @ buildQueryString params)
       no_options False"

definition getDatabase :: "fetch \<Rightarrow> TenantCredentials \<Rightarrow> string
    \<Rightarrow> (thrown + json option) \<times> http_request list" where
  "getDatabase fetch credentials databaseId =
     request fetch credentials (''/databases/'' @ databaseId) no_options False"

definition listFolders :: "fetch \<Rightarrow> TenantCredentials \<Rightarrow> query_params
    \<Rightarrow> (thrown + json option) \<times> http_request list" where
  "listFolders fetch credentials params =
     request fetch credentials
       (''/folders'' @ buildQueryString params)
       no_options False"

definition getFolder :: "fetch \<Rightarrow> TenantCredentials \<Rightarrow> string
    \<Rightarrow> (thrown + json option) \<times> http_request list" where
  "getFolder fetch credentials folderId =
     request fetch credentials (''/folders/'' @ folderId) no_options False"

definition listWhiteboards :: "fetch \<Rightarrow> TenantCredentials \<Rightarrow> query_params
    \<Rightarrow> (thrown + json option) \<times> http_request list" where
  "listWhiteboards fetch credentials params =
     request fetch credentials
       (''/whiteboards'' @ buildQueryString params)
       no_options False"

definition getWhiteboard :: "fetch \<Rightarrow> TenantCredentials \<Rightarrow> string
    \<Rightarrow> (thrown + json option) \<times> http_request list" where
  "getWhiteboard fetch credentials whiteboardId =
     request fetch credentials (''/whiteboards/'' @ whiteboardId) no_options False"

definition search :: "fetch \<Rightarrow> TenantCredentials \<Rightarrow> string \<Rightarrow> search_options
    \<Rightarrow> (thrown + json option) \<times> http_request list" where
  "search fetch credentials cql params =
     (let searchParams = sp_set [] ''cql'' cql;
          searchParams = (case limit params of
                            None \<Rightarrow> searchParams
                          | Some l \<Rightarrow> if l \<noteq> 0 then sp_set searchParams ''limit'' (show_int l)
                                      else searchParams);
          searchParams = (case cursor params of
                            None \<Rightarrow> searchParams
                          | Some c \<Rightarrow> if c \<noteq> [] then sp_set searchParams ''cursor'' c
                                      else searchParams);
          searchParams = (case excerpt params of
                            None \<Rightarrow> searchParams
                          | Some e \<Rightarrow> sp_set searchParams ''excerpt'' (if e then ''true'' else ''false''))
      in request fetch credentials (''/search?'' @ sp_toString searchParams) no_options True)"

section \<open>Dates (the runtime's \<open>Date\<close>)\<close>



























section \<open>The tools (tools/*.ts)\<close>

text \<open>
  What a tool returns: the text of \<open>JSON.stringify(value, null, 2)\<close>, the rendering
  \<open>formatResponse(data, format, entityType)\<close>, or \<open>formatError(error)\<close>.
\<close>

datatype response_format = Json | Markdown

datatype tool_response =
    Text json
  | FormatResponse "json option" response_format string
  | FormatError thrown

datatype body_representation = Storage | Atlas_doc_format | Wiki

fun body_representation_text :: "body_representation \<Rightarrow> string" where
  "body_representation_text Storage = ''storage''"
| "body_representation_text Atlas_doc_format = ''atlas_doc_format''"
| "body_representation_text Wiki = ''wiki''"

datatype content_status = Current | Draft

fun content_status_text :: "content_status \<Rightarrow> string" where
  "content_status_text Current = ''current''"
| "content_status_text Draft = ''draft''"

datatype content_type = Page | Blogpost

fun content_type_text :: "content_type \<Rightarrow> string" where
  "content_type_text Page = ''page''"
| "content_type_text Blogpost = ''blogpost''"

text \<open>An object property whose value may be \<open>undefined\<close>: it is then left out.\<close>

definition opt_field :: "string \<Rightarrow> json option \<Rightarrow> (string \<times> json) list" where
  "opt_field name v = (case v of None \<Rightarrow> [] | Some w \<Rightarrow> [(name, w)])"

text \<open>The result of a tool whose success text is an object with the returned entity.\<close>

definition tool_result :: "string \<Rightarrow> string \<Rightarrow> (thrown + json option) \<times> http_request list
    \<Rightarrow> tool_response \<times> http_request list" where
  "tool_result msg name r =
     (case r of (outcome, sent) \<Rightarrow>
        ((case outcome of
            Inl error \<Rightarrow> FormatError error
          | Inr entity \<Rightarrow>
              Text (JObj ([(''success'', JBool True), (''message'', JStr msg)]
                           @ opt_field name entity))), sent))"

subsection \<open>Updates\<close>

text \<open>
  \<open>version + 1\<close> for a version that is an integer-valued double: the sum is rounded to
  a double again (it is \<open>version\<close> itself at \<open>2^53\<close>), and is never an infinity.
\<close>

definition plus_one :: "int \<Rightarrow> int" where
  "plus_one version = (case to_Number (version + 1) of Finite n \<Rightarrow> n | _ \<Rightarrow> version)"


definition confluence_update_page :: "fetch \<Rightarrow> TenantCredentials \<Rightarrow> string \<Rightarrow> string \<Rightarrow> string
    \<Rightarrow> body_representation \<Rightarrow> int \<Rightarrow> string option \<Rightarrow> content_status option
    \<Rightarrow> tool_response \<times> http_request list" where
  "confluence_update_page fetch credentials pageId title body bodyRepresentation version
       versionMessage status =
     tool_result ''Page updated'' ''page''
       (updatePage fetch credentials pageId
          (JObj ([(''id'', JStr pageId),
                  (''title'', JStr title),
                  (''body'', JObj [(''representation'',
                                     JStr (body_representation_text bodyRepresentation)),
                                   (''value'', JStr body)]),
                  (''version'', JObj ((''number'', JNum (plus_one version))
                                      # opt_field ''message'' (map_option JStr versionMessage)))]
                 @ opt_field ''status'' (map_option (JStr \<circ> content_status_text) status))))"

definition confluence_update_blogpost :: "fetch \<Rightarrow> TenantCredentials \<Rightarrow> string \<Rightarrow> string \<Rightarrow> string
    \<Rightarrow> body_representation \<Rightarrow> int \<Rightarrow> string option \<Rightarrow> content_status option
    \<Rightarrow> tool_response \<times> http_request list" where
  "confluence_update_blogpost fetch credentials blogPostId title body bodyRepresentation version
       versionMessage status =
     tool_result ''Blog post updated'' ''blogPost''
       (updateBlogPost fetch credentials blogPostId
          (JObj ([(''id'', JStr blogPostId),
                  (''title'', JStr title),
                  (''body'', JObj [(''representation'',
                                     JStr (body_representation_text bodyRepresentation)),
                                   (''value'', JStr body)]),
                  (''version'', JObj ((''number'', JNum (plus_one version))
                                      # opt_field ''message'' (map_option JStr versionMessage)))]
                 @ opt_field ''status'' (map_option (JStr \<circ> content_status_text) status))))"

definition confluence_update_comment :: "fetch \<Rightarrow> TenantCredentials \<Rightarrow> string \<Rightarrow> string
    \<Rightarrow> body_representation \<Rightarrow> int \<Rightarrow> string option
    \<Rightarrow> tool_response \<times> http_request list" where
  "confluence_update_comment fetch credentials commentId body bodyRepresentation version
       versionMessage =
     tool_result ''Comment updated'' ''comment''
       (updateComment fetch credentials commentId
          (JObj [(''body'', JObj [(''representation'',
                                    JStr (body_representation_text bodyRepresentation)),
                                  (''value'', JStr body)]),
                 (''version'', JObj ((''number'', JNum (plus_one version))
                                     # opt_field ''message'' (map_option JStr versionMessage)))]))"

definition confluence_update_custom_content :: "fetch \<Rightarrow> TenantCredentials \<Rightarrow> string
    \<Rightarrow> string option \<Rightarrow> string option \<Rightarrow> body_representation option \<Rightarrow> int
    \<Rightarrow> content_status option \<Rightarrow> tool_response \<times> http_request list" where
  "confluence_update_custom_content fetch credentials customContentId title body
       bodyRepresentation version status =
     tool_result ''Custom content updated'' ''customContent''
       (updateCustomContent fetch credentials customContentId
          (JObj ([(''id'', JStr customContentId)]
                 @ opt_field ''title'' (map_option JStr title)
                 @ opt_field ''body''
                     (if truthy_str body \<and> bodyRepresentation \<noteq> None
                      then Some (JObj [(''representation'',
                                         JStr (body_representation_text (the bodyRepresentation))),
                                       (''value'', JStr (the body))])
                      else None)
                 @ [(''version'', JObj [(''number'', JNum (plus_one version))])]
                 @ opt_field ''status'' (map_option (JStr \<circ> content_status_text) status))))"

definition confluence_update_page_property :: "fetch \<Rightarrow> TenantCredentials \<Rightarrow> string \<Rightarrow> string
    \<Rightarrow> json option \<Rightarrow> int \<Rightarrow> tool_response \<times> http_request list" where
  "confluence_update_page_property fetch credentials pageId propertyKey v version =
     tool_result ''Property updated'' ''property''
       (updatePageProperty fetch credentials pageId propertyKey
          (JObj ([(''key'', JStr propertyKey)]
                 @ opt_field ''value'' v
                 @ [(''version'', JObj [(''number'', JNum version)])])))"

definition confluence_update_space_property :: "fetch \<Rightarrow> TenantCredentials \<Rightarrow> string \<Rightarrow> string
    \<Rightarrow> json option \<Rightarrow> int \<Rightarrow> tool_response \<times> http_request list" where
  "confluence_update_space_property fetch credentials spaceId propertyKey v version =
     tool_result ''Property updated'' ''property''
       (updateSpaceProperty fetch credentials spaceId propertyKey
          (JObj (opt_field ''value'' v
                 @ [(''version'', JObj [(''number'', JNum version)])])))"

text \<open>The version number in the body of a request that was sent.\<close>

definition transmitted_version :: "http_request \<Rightarrow> json option" where
  "transmitted_version req = opt_prop (opt_prop (http_body req) ''version'') ''number''"

subsection \<open>Delete page\<close>


subsection \<open>Search tools\<close>

text \<open>\<open>s.replace(/"/g, '\\"')\<close>: a backslash goes before every double quote.\<close>

definition escape_quotes :: "string \<Rightarrow> string" where
  "escape_quotes s = concat (map (\<lambda>c. if c = CHR 0x22 then [CHR 0x5C, CHR 0x22] else [c]) s)"

text \<open>
  In a quoted CQL literal a backslash escapes the character after it, a backslash too.
  So the character at position \<open>i\<close> is escaped when the run of backslashes right before
  it has odd length.
\<close>

definition escaped_at :: "string \<Rightarrow> nat \<Rightarrow> bool" where
  "escaped_at s i = odd (length (takeWhile (\<lambda>c. c = CHR 0x5C) (rev (take i s))))"

text \<open>The result of a search tool.\<close>

definition search_result :: "response_format \<Rightarrow> (thrown + json option) \<times> http_request list
    \<Rightarrow> tool_response \<times> http_request list" where
  "search_result format r =
     (case r of (outcome, sent) \<Rightarrow>
        ((case outcome of
            Inl error \<Rightarrow> FormatError error
          | Inr result \<Rightarrow> FormatResponse result format ''search''), sent))"

definition search_by_label_cql :: "string \<Rightarrow> content_type option \<Rightarrow> string option \<Rightarrow> string" where
  "search_by_label_cql label contentType spaceKey =
     (let cql = ''label='' @ [CHR 0x22] @ escape_quotes label @ [CHR 0x22];
          cql = (case contentType of
                   None \<Rightarrow> cql
                 | Some t \<Rightarrow> cql @ '' AND type='' @ content_type_text t);
          cql = (if truthy_str spaceKey
                 then cql @ '' AND space.key='' @ [CHR 0x22] @ the spaceKey @ [CHR 0x22]
                 else cql)
      in cql)"

definition confluence_search_by_label :: "fetch \<Rightarrow> TenantCredentials \<Rightarrow> string
    \<Rightarrow> content_type option \<Rightarrow> string option \<Rightarrow> int \<Rightarrow> response_format
    \<Rightarrow> tool_response \<times> http_request list" where
  "confluence_search_by_label fetch credentials label contentType spaceKey lim format =
     search_result format
       (search fetch credentials (search_by_label_cql label contentType spaceKey)
          \<lparr> limit = Some lim, cursor = None, excerpt = Some True \<rparr>)"




subsection \<open>Sample inputs\<close>




section \<open>Rendering (utils/formatters.ts)\<close>

text \<open>
  A paginated response: the items and the optional \<open>_links\<close> object with its optional
  \<open>next\<close> and \<open>base\<close> strings.
\<close>

record page_links =
  next_link :: "string option"
  base_link :: "string option"

record 'a PaginatedResponse =
  results :: "'a list"
  links :: "page_links option"

text \<open>
  The table formatters, one for each entity family and the generic one.  They print
  dates and numbers through the runtime's locale and floating-point functions and are
  parameters here; each maps the items to the text of a table.
\<close>

record 'a table_formatters =
  formatSpacesTable :: "'a list \<Rightarrow> string"
  formatPagesTable :: "'a list \<Rightarrow> string"
  formatBlogPostsTable :: "'a list \<Rightarrow> string"
  formatCommentsTable :: "'a list \<Rightarrow> string"
  formatAttachmentsTable :: "'a list \<Rightarrow> string"
  formatLabelsTable :: "'a list \<Rightarrow> string"
  formatTasksTable :: "'a list \<Rightarrow> string"
  formatUsersTable :: "'a list \<Rightarrow> string"
  formatSearchResultsTable :: "'a list \<Rightarrow> string"
  formatGenericTable :: "'a list \<Rightarrow> string"

text \<open>\<open>toUpperCase\<close> on one character, for the letters of ASCII.\<close>

definition to_upper :: "char \<Rightarrow> char" where
  "to_upper c =
     (case map_of (zip ''abcdefghijklmnopqrstuvwxyz'' ''ABCDEFGHIJKLMNOPQRSTUVWXYZ'') c of
        None \<Rightarrow> c
      | Some u \<Rightarrow> u)"

definition capitalize :: "string \<Rightarrow> string" where
  "capitalize str = (case str of [] \<Rightarrow> [] | c # rest \<Rightarrow> to_upper c # rest)"

text \<open>\<open>!!data._links?.next\<close>\<close>

definition hasMore :: "'a PaginatedResponse \<Rightarrow> bool" where
  "hasMore data = (case links data of None \<Rightarrow> False | Some l \<Rightarrow> truthy_str (next_link l))"

text \<open>The array \<open>lines\<close> of \<open>formatPaginatedAsMarkdown\<close> when the function returns.\<close>

definition paginated_lines :: "'a table_formatters \<Rightarrow> 'a PaginatedResponse \<Rightarrow> string \<Rightarrow> string list" where
  "paginated_lines fmt data entityType =
     (let count = length (results data);
          lines = [''## '' @ capitalize entityType, '''', ''**Showing:** '' @ show_nat count];
          lines = (if hasMore data then lines @ [''**More available:** Yes''] else lines);
          lines = lines @ ['''']
      in if length (results data) = 0 then lines @ [''_No items found._'']
         else lines @
           [if entityType = ''spaces'' then formatSpacesTable fmt (results data)
            else if entityType = ''pages'' then formatPagesTable fmt (results data)
            else if entityType = ''blogposts'' then formatBlogPostsTable fmt (results data)
            else if entityType = ''comments'' then formatCommentsTable fmt (results data)
            else if entityType = ''attachments'' then formatAttachmentsTable fmt (results data)
            else if entityType = ''labels'' then formatLabelsTable fmt (results data)
            else if entityType = ''tasks'' then formatTasksTable fmt (results data)
            else if entityType = ''users'' then formatUsersTable fmt (results data)
            else if entityType = ''search'' then formatSearchResultsTable fmt (results data)
            else formatGenericTable fmt (results data)])"

definition formatPaginatedAsMarkdown :: "'a table_formatters \<Rightarrow> 'a PaginatedResponse \<Rightarrow> string \<Rightarrow> string" where
  "formatPaginatedAsMarkdown fmt data entityType =
     join [CHR 0x0A] (paginated_lines fmt data entityType)"

subsection \<open>Sample inputs\<close>

text \<open>Formatters that print one row mark for each item.\<close>

definition row_marks :: "unit table_formatters" where
  "row_marks =
     \<lparr> formatSpacesTable = map (\<lambda>_. CHR ''|''), formatPagesTable = map (\<lambda>_. CHR ''|''),
       formatBlogPostsTable = map (\<lambda>_. CHR ''|''), formatCommentsTable = map (\<lambda>_. CHR ''|''),
       formatAttachmentsTable = map (\<lambda>_. CHR ''|''), formatLabelsTable = map (\<lambda>_. CHR ''|''),
       formatTasksTable = map (\<lambda>_. CHR ''|''), formatUsersTable = map (\<lambda>_. CHR ''|''),
       formatSearchResultsTable = map (\<lambda>_. CHR ''|''),
       formatGenericTable = map (\<lambda>_. CHR ''|'') \<rparr>"

text \<open>A response with no items whose \<open>next\<close> link is there and empty.\<close>

definition empty_next_response :: "unit PaginatedResponse" where
  "empty_next_response = \<lparr> results = [], links = Some \<lparr> next_link = Some [], base_link = None \<rparr> \<rparr>"

definition last_page_response :: "unit PaginatedResponse" where
  "last_page_response = \<lparr> results = [(), ()], links = None \<rparr>"

definition first_page_response :: "unit PaginatedResponse" where
  "first_page_response =
     \<lparr> results = [], links = Some \<lparr> next_link = Some ''/wiki/api/v2/pages?cursor=abc'', base_link = None \<rparr> \<rparr>"

section \<open>Credential validation\<close>

lemma validateCredentials_ok_iff:
  "validateCredentials c = Inr () \<longleftrightarrow>
     (domain c \<noteq> [] \<or> truthy_str (cloudId c)) \<and> email c \<noteq> [] \<and> apiToken c \<noteq> []"
  by (simp add: validateCredentials_def)

lemma validateCredentials_fails_iff:
  "(\<exists>m. validateCredentials c = Inl m) \<longleftrightarrow>
     (domain c = [] \<and> \<not> truthy_str (cloudId c)) \<or> email c = [] \<or> apiToken c = []"
  by (auto simp add: validateCredentials_def)

lemma missing_messages_distinct:
  "msg_missing_domain \<noteq> msg_missing_email"
  "msg_missing_domain \<noteq> msg_missing_token"
  "msg_missing_email \<noteq> msg_missing_token"
  by (simp_all add: msg_missing_domain_def msg_missing_email_def msg_missing_token_def)

text \<open>
  C4.  A credential set fails validation exactly when both the domain and the cloud ID
  are missing, or the email is missing, or the API token is missing (a missing field of a
  parsed set is the empty string, or \<open>undefined\<close> for the cloud ID).  The failure is the
  message for the first missing item in that order, the three messages are pairwise
  different and each names its header; a set with domain or cloud ID, email and token
  passes.
\<close>

theorem validateCredentials_spec:
  "((\<exists>m. validateCredentials c = Inl m) \<longleftrightarrow>
      (domain c = [] \<and> \<not> truthy_str (cloudId c)) \<or> email c = [] \<or> apiToken c = [])
   \<and> (validateCredentials c = Inr () \<longleftrightarrow>
      (domain c \<noteq> [] \<or> truthy_str (cloudId c)) \<and> email c \<noteq> [] \<and> apiToken c \<noteq> [])
   \<and> validateCredentials c =
      (if domain c = [] \<and> \<not> truthy_str (cloudId c) then
         Inl (Error
           ''Missing credentials. Provide X-Confluence-Domain or X-Confluence-Cloud-ID header.'')
       else if email c = [] then
         Inl (Error ''Missing credentials. Provide X-Confluence-Email header.'')
       else if apiToken c = [] then
         Inl (Error ''Missing credentials. Provide X-Confluence-API-Token header.'')
       else Inr ())
   \<and> distinct [msg_missing_domain, msg_missing_email, msg_missing_token]"
  using validateCredentials_ok_iff [of c] validateCredentials_fails_iff [of c]
    missing_messages_distinct
  by (simp add: validateCredentials_def msg_missing_domain_def msg_missing_email_def
      msg_missing_token_def)

theorem validateCredentials_spec_witness:
  "validateCredentials \<lparr> domain = ''acme'', email = ''a@b.c'', apiToken = ''t'', cloudId = None \<rparr>
     = Inr ()
   \<and> validateCredentials \<lparr> domain = '''', email = ''a@b.c'', apiToken = ''t'', cloudId = None \<rparr>
     = Inl (Error msg_missing_domain)
   \<and> validateCredentials \<lparr> domain = ''acme'', email = '''', apiToken = ''t'', cloudId = None \<rparr>
     = Inl (Error msg_missing_email)
   \<and> validateCredentials \<lparr> domain = ''acme'', email = ''a@b.c'', apiToken = '''', cloudId = None \<rparr>
     = Inl (Error msg_missing_token)"
  using
    validateCredentials_spec
      [of "\<lparr> domain = ''acme'', email = ''a@b.c'', apiToken = ''t'', cloudId = None \<rparr>"]
    validateCredentials_spec
      [of "\<lparr> domain = '''', email = ''a@b.c'', apiToken = ''t'', cloudId = None \<rparr>"]
    validateCredentials_spec
      [of "\<lparr> domain = ''acme'', email = '''', apiToken = ''t'', cloudId = None \<rparr>"]
    validateCredentials_spec
      [of "\<lparr> domain = ''acme'', email = ''a@b.c'', apiToken = '''', cloudId = None \<rparr>"]
  by (simp add: truthy_str_def msg_missing_domain_def msg_missing_email_def
      msg_missing_token_def)

section \<open>Parsing followed by validation\<close>

lemma or_str_empty_default [simp]: "or_str v [] = [] \<longleftrightarrow> \<not> truthy_str v"
  by (simp add: or_str_def truthy_str_def split: option.splits)

lemma truthy_or_undefined [simp]: "truthy_str (or_undefined v) = truthy_str v"
  by (simp add: or_undefined_def truthy_str_def split: option.splits)

lemma parse_empty_as_absent:
  "parseTenantCredentials (hdrs(name := Some [])) = parseTenantCredentials (hdrs(name := None))"
  by (simp add: parseTenantCredentials_def or_str_def or_undefined_def)

text \<open>
  C9.  A tenant header that is there with the empty string parses to the same credentials
  as the header left out: a missing or empty header becomes the empty string (the cloud-ID
  header becomes \<open>undefined\<close>).  Parsing followed by validation therefore fails exactly
  when the domain and cloud-ID headers are both missing or empty, or the email header is,
  or the token header is.
\<close>

theorem parse_validate_empty_header:
  "parseTenantCredentials (hdrs(name := Some [])) = parseTenantCredentials (hdrs(name := None))
   \<and> domain (parseTenantCredentials (hdrs(''X-Confluence-Domain'' := None))) = []
   \<and> email (parseTenantCredentials (hdrs(''X-Confluence-Email'' := None))) = []
   \<and> apiToken (parseTenantCredentials (hdrs(''X-Confluence-API-Token'' := None))) = []
   \<and> cloudId (parseTenantCredentials (hdrs(''X-Confluence-Cloud-ID'' := None))) = None
   \<and> ((\<exists>m. validateCredentials (parseTenantCredentials hdrs) = Inl m) \<longleftrightarrow>
        (\<not> header_given hdrs ''X-Confluence-Domain''
           \<and> \<not> header_given hdrs ''X-Confluence-Cloud-ID'')
        \<or> \<not> header_given hdrs ''X-Confluence-Email''
        \<or> \<not> header_given hdrs ''X-Confluence-API-Token'')"
proof -
  have "(\<exists>m. validateCredentials (parseTenantCredentials hdrs) = Inl m) \<longleftrightarrow>
        (\<not> header_given hdrs ''X-Confluence-Domain''
           \<and> \<not> header_given hdrs ''X-Confluence-Cloud-ID'')
        \<or> \<not> header_given hdrs ''X-Confluence-Email''
        \<or> \<not> header_given hdrs ''X-Confluence-API-Token''"
    unfolding validateCredentials_fails_iff
    by (simp add: parseTenantCredentials_def header_given_def)
  moreover have "domain (parseTenantCredentials (hdrs(''X-Confluence-Domain'' := None))) = []"
    by (simp add: parseTenantCredentials_def or_str_def)
  moreover have "email (parseTenantCredentials (hdrs(''X-Confluence-Email'' := None))) = []"
    by (simp add: parseTenantCredentials_def or_str_def)
  moreover have "apiToken (parseTenantCredentials (hdrs(''X-Confluence-API-Token'' := None))) = []"
    by (simp add: parseTenantCredentials_def or_str_def)
  moreover have "cloudId (parseTenantCredentials (hdrs(''X-Confluence-Cloud-ID'' := None))) = None"
    by (simp add: parseTenantCredentials_def or_undefined_def)
  ultimately show ?thesis
    using parse_empty_as_absent [of hdrs name] by simp
qed

theorem parse_validate_empty_header_witness:
  "(\<exists>m. validateCredentials (parseTenantCredentials example_headers) = Inl m)
   \<and> \<not> header_given example_headers ''X-Confluence-Domain''
   \<and> \<not> header_given example_headers ''X-Confluence-Cloud-ID''
   \<and> header_given example_headers ''X-Confluence-Email''
   \<and> header_given example_headers ''X-Confluence-API-Token''"
  using parse_validate_empty_header [of example_headers "''X-Confluence-Domain''"]
  by (simp add: header_given_def truthy_str_def example_headers_def)

section \<open>Status classification\<close>

lemma js_or_first_truthy: "js_or a (first_truthy xs d) = first_truthy (a # xs) d"
  by (cases a) (simp_all add: js_or_def)

lemma api_error_message_first_truthy:
  "api_error_message b st =
     (case b of
        Inl syntax_error \<Rightarrow> JStr (''API error: '' @ show_nat st)
      | Inr errorJson \<Rightarrow>
          if errorJson = JNull then JStr (''API error: '' @ show_nat st)
          else first_truthy
                 [js_prop errorJson ''message'', js_prop errorJson ''error'',
                  opt_prop (opt_first (js_prop errorJson ''errors'')) ''message'']
                 (JStr (''API error: '' @ show_nat st)))"
proof (cases b)
  case (Inl e)
  then show ?thesis
    by (simp add: api_error_message_def)
next
  case (Inr errorJson)
  have "js_or x (js_or y (js_or z d)) = first_truthy [x, y, z] d" for x y z d
    using js_or_first_truthy [of z "[]" d] js_or_first_truthy [of y "[z]" d]
      js_or_first_truthy [of x "[y, z]" d]
    by simp
  then show ?thesis
    using Inr by (cases errorJson) (simp_all add: api_error_message_def)
qed

text \<open>
  C2 (as amended).  A response is classified by its status, first match first: 429 gives
  a \<open>RateLimitError\<close> that carries the parsed \<open>Retry-After\<close> value when the header is
  there and not empty, and 60 when it is absent or empty; 401 an \<open>AuthenticationError\<close>;
  403 a \<open>ForbiddenError\<close>; 404 a \<open>NotFoundError\<close>; every other status outside 200..299
  a \<open>ConfluenceApiError\<close> with the status, whose message comes from the body's
  \<open>message\<close>, \<open>error\<close> or \<open>errors[0].message\<close> (the first of them that is truthy) and is
  \<open>API error: {status}\<close> when none is, or when the body is no JSON or is \<open>null\<close>.  The body
  plays no part for 429, 401, 403 and 404.
\<close>

theorem request_classifies_status:
  assumes "fetch (outgoing_request credentials endpoint options useSearchApi) = Resolved r"
  shows "(status_code r = 429 \<longrightarrow>
            fst (request fetch credentials endpoint options useSearchApi) =
              Inl (RateLimitError ''Rate limit exceeded''
                    (if truthy_str (retry_after_header r)
                     then parseInt10 (the (retry_after_header r)) else Finite 60)))
       \<and> (status_code r = 401 \<longrightarrow>
            fst (request fetch credentials endpoint options useSearchApi) =
              Inl (AuthenticationError ''Authentication failed. Check your credentials.''))
       \<and> (status_code r = 403 \<longrightarrow>
            fst (request fetch credentials endpoint options useSearchApi) =
              Inl (ForbiddenError ''Access denied. Check your permissions.''))
       \<and> (status_code r = 404 \<longrightarrow>
            fst (request fetch credentials endpoint options useSearchApi) =
              Inl (NotFoundError ''Resource'' endpoint))
       \<and> (status_code r \<notin> {429, 401, 403, 404} \<and> \<not> response_ok r \<longrightarrow>
            fst (request fetch credentials endpoint options useSearchApi) =
              Inl (ConfluenceApiError
                    (case body_json r of
                       Inl syntax_error \<Rightarrow> JStr (''API error: '' @ show_nat (status_code r))
                     | Inr errorJson \<Rightarrow>
                         if errorJson = JNull
                         then JStr (''API error: '' @ show_nat (status_code r))
                         else first_truthy
                                [js_prop errorJson ''message'', js_prop errorJson ''error'',
                                 opt_prop (opt_first (js_prop errorJson ''errors'')) ''message'']
                                (JStr (''API error: '' @ show_nat (status_code r))))
                    (status_code r)))"
proof -
  have generic: "status_code r \<notin> {429, 401, 403, 404} \<and> \<not> response_ok r \<longrightarrow>
      fst (request fetch credentials endpoint options useSearchApi) =
        Inl (ConfluenceApiError (api_error_message (body_json r) (status_code r)) (status_code r))"
    using assms by (simp add: request_def respond_def)
  have "status_code r = 429 \<longrightarrow>
            fst (request fetch credentials endpoint options useSearchApi) =
              Inl (RateLimitError ''Rate limit exceeded''
                    (if truthy_str (retry_after_header r)
                     then parseInt10 (the (retry_after_header r)) else Finite 60))"
    using assms by (simp add: request_def respond_def truthy_str_def split: option.splits)
  moreover have "status_code r = 401 \<longrightarrow>
            fst (request fetch credentials endpoint options useSearchApi) =
              Inl (AuthenticationError ''Authentication failed. Check your credentials.'')"
    using assms by (simp add: request_def respond_def)
  moreover have "status_code r = 403 \<longrightarrow>
            fst (request fetch credentials endpoint options useSearchApi) =
              Inl (ForbiddenError ''Access denied. Check your permissions.'')"
    using assms by (simp add: request_def respond_def)
  moreover have "status_code r = 404 \<longrightarrow>
            fst (request fetch credentials endpoint options useSearchApi) =
              Inl (NotFoundError ''Resource'' endpoint)"
    using assms by (simp add: request_def respond_def)
  ultimately show ?thesis
    using generic unfolding api_error_message_first_truthy by blast
qed

theorem request_classifies_status_witness:
  "fst (request (always (Resolved rate_limited_30)) acme_credentials ''/pages'' no_options False)
     = Inl (RateLimitError ''Rate limit exceeded'' (Finite 30))
   \<and> fst (request (always (Resolved (rate_limited_30 \<lparr> retry_after_header := None \<rparr>)))
       acme_credentials ''/pages'' no_options False)
     = Inl (RateLimitError ''Rate limit exceeded'' (Finite 60))
   \<and> fst (request (always (Resolved (rate_limited_30 \<lparr> status_code := 401 \<rparr>)))
       acme_credentials ''/pages'' no_options False)
     = Inl (AuthenticationError ''Authentication failed. Check your credentials.'')
   \<and> fst (request (always (Resolved (rate_limited_30 \<lparr> status_code := 403 \<rparr>)))
       acme_credentials ''/pages'' no_options False)
     = Inl (ForbiddenError ''Access denied. Check your permissions.'')
   \<and> fst (request (always (Resolved (rate_limited_30 \<lparr> status_code := 404 \<rparr>)))
       acme_credentials ''/pages'' no_options False)
     = Inl (NotFoundError ''Resource'' ''/pages'')
   \<and> fst (request (always (Resolved server_error_500)) acme_credentials ''/pages'' no_options False)
     = Inl (ConfluenceApiError (JStr ''boom'') 500)
   \<and> fst (request (always (Resolved conflict_409)) acme_credentials ''/pages'' no_options False)
     = Inl (ConfluenceApiError (JStr ''Version conflict'') 409)
   \<and> fst (request (always (Resolved bad_gateway_502)) acme_credentials ''/pages'' no_options False)
     = Inl (ConfluenceApiError (JStr ''API error: 502'') 502)"
proof -
  have p: "parseInt10 ''30'' = Finite 30"
    by (simp add: parseInt10_def is_white_space_def is_digit_def digits_value_def to_Number_def)
  have n: "show_nat 502 = ''502''"
    by (simp add: show_nat.simps digit_char_def)
  show ?thesis
    using
      request_classifies_status [of "always (Resolved rate_limited_30)" acme_credentials
        "''/pages''" no_options False rate_limited_30]
      request_classifies_status [of
        "always (Resolved (rate_limited_30 \<lparr> retry_after_header := None \<rparr>))" acme_credentials
        "''/pages''" no_options False "rate_limited_30 \<lparr> retry_after_header := None \<rparr>"]
      request_classifies_status [of
        "always (Resolved (rate_limited_30 \<lparr> status_code := 401 \<rparr>))" acme_credentials
        "''/pages''" no_options False "rate_limited_30 \<lparr> status_code := 401 \<rparr>"]
      request_classifies_status [of
        "always (Resolved (rate_limited_30 \<lparr> status_code := 403 \<rparr>))" acme_credentials
        "''/pages''" no_options False "rate_limited_30 \<lparr> status_code := 403 \<rparr>"]
      request_classifies_status [of
        "always (Resolved (rate_limited_30 \<lparr> status_code := 404 \<rparr>))" acme_credentials
        "''/pages''" no_options False "rate_limited_30 \<lparr> status_code := 404 \<rparr>"]
      request_classifies_status [of "always (Resolved server_error_500)" acme_credentials
        "''/pages''" no_options False server_error_500]
      request_classifies_status [of "always (Resolved conflict_409)" acme_credentials
        "''/pages''" no_options False conflict_409]
      request_classifies_status [of "always (Resolved bad_gateway_502)" acme_credentials
        "''/pages''" no_options False bad_gateway_502]
    by (simp add: always_def rate_limited_30_def server_error_500_def conflict_409_def
        bad_gateway_502_def truthy_str_def response_ok_def p n opt_prop_def opt_first_def)
qed

text \<open>
  The claim as first stated fails on a 429 response whose \<open>Retry-After\<close> header is there
  with an empty value: the error carries 60, not the parsed value (which is \<open>NaN\<close>).
\<close>

theorem retry_after_empty_counterexample:
  "status_code rate_limited_empty = 429
   \<and> retry_after_header rate_limited_empty = Some []
   \<and> fst (request (always (Resolved rate_limited_empty)) acme_credentials ''/pages'' no_options
         False) = Inl (RateLimitError ''Rate limit exceeded'' (Finite 60))
   \<and> fst (request (always (Resolved rate_limited_empty)) acme_credentials ''/pages'' no_options
         False) \<noteq> Inl (RateLimitError ''Rate limit exceeded'' (parseInt10 []))"
  by (simp add: rate_limited_empty_def request_def respond_def always_def parseInt10_def)

section \<open>Connection test\<close>

text \<open>
  C10.  \<open>testConnection\<close> always returns and never throws: when the request succeeds
  the result is connected with the fixed message; when the request throws an \<open>Error\<close>
  (the taxonomy errors included) the result is not connected and carries the error's
  message; when it throws anything else the message is \<open>Connection failed\<close>.
\<close>

theorem testConnection_never_throws:
  "(\<exists>s. fst (testConnection fetch credentials taxonomy_message) = Inr s)
   \<and> (\<forall>v. fst (request fetch credentials ''/spaces?limit=1'' no_options False) = Inr v \<longrightarrow>
        fst (testConnection fetch credentials taxonomy_message) =
          Inr \<lparr> connected = True, message = ''Successfully connected to Confluence'' \<rparr>)
   \<and> (\<forall>e. fst (request fetch credentials ''/spaces?limit=1'' no_options False) = Inl e
          \<and> instanceof_Error e \<longrightarrow>
        fst (testConnection fetch credentials taxonomy_message) =
          Inr \<lparr> connected = False, message = error_message taxonomy_message e \<rparr>)
   \<and> (\<forall>v. fst (request fetch credentials ''/spaces?limit=1'' no_options False) = Inl (Thrown v)
        \<longrightarrow> fst (testConnection fetch credentials taxonomy_message) =
          Inr \<lparr> connected = False, message = ''Connection failed'' \<rparr>)"
  by (cases "respond ''/spaces?limit=1''
        (fetch (outgoing_request credentials ''/spaces?limit=1'' no_options False))")
     (simp_all add: testConnection_def request_def try_catch_def)

theorem testConnection_never_throws_witness:
  "fst (testConnection (always (Resolved \<lparr> status_code = 200, retry_after_header = None,
        body_json = Inr (JObj [(''results'', JArr [])]) \<rparr>)) acme_credentials (\<lambda>e. ''taxonomy''))
     = Inr \<lparr> connected = True, message = ''Successfully connected to Confluence'' \<rparr>
   \<and> fst (testConnection (always (Resolved rate_limited_30)) acme_credentials (\<lambda>e. ''taxonomy''))
     = Inr \<lparr> connected = False, message = ''taxonomy'' \<rparr>
   \<and> fst (testConnection (always (Rejected (Error ''fetch failed''))) acme_credentials
        (\<lambda>e. ''taxonomy''))
     = Inr \<lparr> connected = False, message = ''fetch failed'' \<rparr>
   \<and> fst (testConnection (always (Rejected (Thrown JNull))) acme_credentials (\<lambda>e. ''taxonomy''))
     = Inr \<lparr> connected = False, message = ''Connection failed'' \<rparr>"
proof -
  have a: "fst (request (always (Resolved \<lparr> status_code = 200, retry_after_header = None,
        body_json = Inr (JObj [(''results'', JArr [])]) \<rparr>)) acme_credentials
        ''/spaces?limit=1'' no_options False) = Inr (Some (JObj [(''results'', JArr [])]))"
    by (simp add: request_def respond_def always_def response_ok_def)
  have b: "fst (request (always (Resolved rate_limited_30)) acme_credentials
        ''/spaces?limit=1'' no_options False)
      = Inl (RateLimitError ''Rate limit exceeded'' (Finite 30))"
    by (simp add: request_def respond_def always_def rate_limited_30_def parseInt10_def
        is_white_space_def is_digit_def digits_value_def to_Number_def)
  have c: "\<And>e. fst (request (always (Rejected e)) acme_credentials
        ''/spaces?limit=1'' no_options False) = Inl e"
    by (simp add: request_def respond_def always_def)
  show ?thesis
    using testConnection_never_throws [of "always (Resolved \<lparr> status_code = 200,
        retry_after_header = None, body_json = Inr (JObj [(''results'', JArr [])]) \<rparr>)"
        acme_credentials "\<lambda>e. ''taxonomy''"]
      testConnection_never_throws [of "always (Resolved rate_limited_30)"
        acme_credentials "\<lambda>e. ''taxonomy''"]
      testConnection_never_throws [of "always (Rejected (Error ''fetch failed''))"
        acme_credentials "\<lambda>e. ''taxonomy''"]
      testConnection_never_throws [of "always (Rejected (Thrown JNull))"
        acme_credentials "\<lambda>e. ''taxonomy''"]
    by (simp add: a b c)
qed

section \<open>Requests sent by the client\<close>

lemma request_sent:
  "snd (request fetch c endpoint options useSearchApi)
     = [outgoing_request c endpoint options useSearchApi]"
  by (simp add: request_def Let_def)

lemma dropped_sent: "snd (dropped r) = snd r"
  by (cases r) (simp add: dropped_def)

lemma read_results_sent: "snd (read_results r) = snd r"
  by (cases r) (simp add: read_results_def)

lemma tool_result_sent: "snd (tool_result msg name r) = snd r"
  by (cases r) (simp add: tool_result_def)

lemma search_result_sent: "snd (search_result format r) = snd r"
  by (cases r) (simp add: search_result_def)

lemma url_outgoing:
  "url (outgoing_request c endpoint options useSearchApi)
     = (if useSearchApi then searchBaseUrl c else baseUrl c) @ endpoint"
  by (simp add: outgoing_request_def)

lemma body_outgoing:
  "http_body (outgoing_request c endpoint options useSearchApi) = req_body options"
  by (simp add: outgoing_request_def)


section \<open>Version numbers of updates\<close>

text \<open>
  The tools for pages, blog posts, comments and custom content send the caller's version
  plus one (the sum as the runtime computes it on doubles, exact below \<open>2^53\<close>).
\<close>

lemma content_updates_send_next_version:
  "map transmitted_version
     (snd (confluence_update_page fetch c pageId title body rep n versionMessage st))
     = [Some (JNum (plus_one n))]"
  "map transmitted_version
     (snd (confluence_update_blogpost fetch c blogPostId title body rep n versionMessage st))
     = [Some (JNum (plus_one n))]"
  "map transmitted_version
     (snd (confluence_update_comment fetch c commentId body rep n versionMessage))
     = [Some (JNum (plus_one n))]"
  "map transmitted_version
     (snd (confluence_update_custom_content fetch c customContentId title' body' rep' n st))
     = [Some (JNum (plus_one n))]"
  by (simp_all add: confluence_update_page_def confluence_update_blogpost_def
      confluence_update_comment_def confluence_update_custom_content_def
      updatePage_def updateBlogPost_def updateComment_def updateCustomContent_def
      tool_result_sent request_sent body_outgoing with_json_def transmitted_version_def
      opt_prop_def opt_field_def split: option.splits)

lemma plus_one_exact: "\<bar>n + 1\<bar> < 2 ^ 53 \<Longrightarrow> plus_one n = n + 1"
  by (simp add: plus_one_def to_Number_def)

text \<open>
  C1.  The two property tools send the caller's version number as it is: with current
  version \<open>n\<close> the request body carries \<open>n\<close>, which is not \<open>n + 1\<close>.
\<close>

theorem property_updates_send_same_version:
  "map transmitted_version
     (snd (confluence_update_page_property fetch c pageId propertyKey v n)) = [Some (JNum n)]
   \<and> map transmitted_version
     (snd (confluence_update_space_property fetch c spaceId propertyKey v n)) = [Some (JNum n)]
   \<and> JNum n \<noteq> JNum (n + 1)"
  by (simp add: confluence_update_page_property_def confluence_update_space_property_def
      updatePageProperty_def updateSpaceProperty_def
      tool_result_sent request_sent body_outgoing with_json_def transmitted_version_def
      opt_prop_def opt_field_def split: option.splits)

section \<open>Base endpoints\<close>

lemma baseUrl_ignores_cloudId:
  "baseUrl (c \<lparr> cloudId := x \<rparr>) = ''https://'' @ domain c @ ''.atlassian.net/wiki/api/v2''"
  "searchBaseUrl (c \<lparr> cloudId := x \<rparr>) = ''https://'' @ domain c @ ''.atlassian.net/wiki/rest/api''"
  by (simp_all add: baseUrl_def searchBaseUrl_def)

text \<open>
  Every method other than \<open>search\<close> sends its one request to an address under the
  current resource API; \<open>search\<close> sends its request under the legacy API.
\<close>

lemma crud_methods_use_current_api:
  "map url (snd (listSpaces fetch c params)) =
     [baseUrl c @ ''/spaces'' @ buildQueryString params]"
  "map url (snd (getSpace fetch c spaceId)) =
     [baseUrl c @ ''/spaces/'' @ spaceId]"
  "map url (snd (createSpace fetch c input)) =
     [baseUrl c @ ''/spaces'']"
  "map url (snd (deleteSpace fetch c spaceId)) =
     [baseUrl c @ ''/spaces/'' @ spaceId]"
  "map url (snd (listPages fetch c params)) =
     [baseUrl c @ ''/pages'' @ buildQueryString params]"
  "map url (snd (getPage fetch c pageId bodyFormat)) =
     [baseUrl c @ ''/pages/'' @ pageId @ (if truthy_str bodyFormat then ''?body-format='' @ the bodyFormat else [])]"
  "map url (snd (createPage fetch c input)) =
     [baseUrl c @ ''/pages'']"
  "map url (snd (updatePage fetch c pageId input)) =
     [baseUrl c @ ''/pages/'' @ pageId]"
  "map url (snd (deletePage fetch c pageId purge)) =
     [baseUrl c @ ''/pages/'' @ pageId @ (if purge then ''?purge=true'' else [])]"
  "map url (snd (getPagesBySpaceId fetch c spaceId params)) =
     [baseUrl c @ ''/spaces/'' @ spaceId @ ''/pages'' @ buildQueryString params]"
  "map url (snd (getPageChildren fetch c pageId params)) =
     [baseUrl c @ ''/pages/'' @ pageId @ ''/children'' @ buildQueryString params]"
  "map url (snd (getPageAncestors fetch c pageId)) =
     [baseUrl c @ ''/pages/'' @ pageId @ ''/ancestors'']"
  "map url (snd (getPageDescendants fetch c pageId params)) =
     [baseUrl c @ ''/pages/'' @ pageId @ ''/descendants'' @ buildQueryString params]"
  "map url (snd (getPageLabels fetch c pageId params)) =
     [baseUrl c @ ''/pages/'' @ pageId @ ''/labels'' @ buildQueryString params]"
  "map url (snd (addPageLabels fetch c pageId labels)) =
     [baseUrl c @ ''/pages/'' @ pageId @ ''/labels'']"
  "map url (snd (removePageLabel fetch c pageId labelId)) =
     [baseUrl c @ ''/pages/'' @ pageId @ ''/labels/'' @ labelId]"
  "map url (snd (getPageLikes fetch c pageId params)) =
     [baseUrl c @ ''/pages/'' @ pageId @ ''/likes'' @ buildQueryString params]"
  "map url (snd (likePage fetch c pageId)) =
     [baseUrl c @ ''/pages/'' @ pageId @ ''/likes'']"
  "map url (snd (unlikePage fetch c pageId)) =
     [baseUrl c @ ''/pages/'' @ pageId @ ''/likes'']"
  "map url (snd (getPageVersions fetch c pageId params)) =
     [baseUrl c @ ''/pages/'' @ pageId @ ''/versions'' @ buildQueryString params]"
  "map url (snd (getPageVersion fetch c pageId versionNumber)) =
     [baseUrl c @ ''/pages/'' @ pageId @ ''/versions/'' @ show_int versionNumber]"
  "map url (snd (getPageProperties fetch c pageId params)) =
     [baseUrl c @ ''/pages/'' @ pageId @ ''/properties'' @ buildQueryString params]"
  "map url (snd (getPageProperty fetch c pageId propertyKey)) =
     [baseUrl c @ ''/pages/'' @ pageId @ ''/properties/'' @ propertyKey]"
  "map url (snd (createPageProperty fetch c pageId input)) =
     [baseUrl c @ ''/pages/'' @ pageId @ ''/properties'']"
  "map url (snd (updatePageProperty fetch c pageId propertyKey input)) =
     [baseUrl c @ ''/pages/'' @ pageId @ ''/properties/'' @ propertyKey]"
  "map url (snd (deletePageProperty fetch c pageId propertyKey)) =
     [baseUrl c @ ''/pages/'' @ pageId @ ''/properties/'' @ propertyKey]"
  "map url (snd (getPageAttachments fetch c pageId params)) =
     [baseUrl c @ ''/pages/'' @ pageId @ ''/attachments'' @ buildQueryString params]"
  "map url (snd (getPageComments fetch c pageId params)) =
     [baseUrl c @ ''/pages/'' @ pageId @ ''/comments'' @ buildQueryString params]"
  "map url (snd (getPageOperations fetch c pageId)) =
     [baseUrl c @ ''/pages/'' @ pageId @ ''/operations'']"
  "map url (snd (listBlogPosts fetch c params)) =
     [baseUrl c @ ''/blogposts'' @ buildQueryString params]"
  "map url (snd (getBlogPost fetch c blogPostId bodyFormat)) =
     [baseUrl c @ ''/blogposts/'' @ blogPostId @ (if truthy_str bodyFormat then ''?body-format='' @ the bodyFormat else [])]"
  "map url (snd (createBlogPost fetch c input)) =
     [baseUrl c @ ''/blogposts'']"
  "map url (snd (updateBlogPost fetch c blogPostId input)) =
     [baseUrl c @ ''/blogposts/'' @ blogPostId]"
  "map url (snd (deleteBlogPost fetch c blogPostId purge)) =
     [baseUrl c @ ''/blogposts/'' @ blogPostId @ (if purge then ''?purge=true'' else [])]"
  "map url (snd (getBlogPostsBySpaceId fetch c spaceId params)) =
     [baseUrl c @ ''/spaces/'' @ spaceId @ ''/blogposts'' @ buildQueryString params]"
  "map url (snd (getBlogPostLabels fetch c blogPostId params)) =
     [baseUrl c @ ''/blogposts/'' @ blogPostId @ ''/labels'' @ buildQueryString params]"
  "map url (snd (addBlogPostLabels fetch c blogPostId labels)) =
     [baseUrl c @ ''/blogposts/'' @ blogPostId @ ''/labels'']"
  "map url (snd (removeBlogPostLabel fetch c blogPostId labelId)) =
     [baseUrl c @ ''/blogposts/'' @ blogPostId @ ''/labels/'' @ labelId]"
  "map url (snd (getBlogPostVersions fetch c blogPostId params)) =
     [baseUrl c @ ''/blogposts/'' @ blogPostId @ ''/versions'' @ buildQueryString params]"
  "map url (snd (getBlogPostAttachments fetch c blogPostId params)) =
     [baseUrl c @ ''/blogposts/'' @ blogPostId @ ''/attachments'' @ buildQueryString params]"
  "map url (snd (getBlogPostComments fetch c blogPostId params)) =
     [baseUrl c @ ''/blogposts/'' @ blogPostId @ ''/comments'' @ buildQueryString params]"
  "map url (snd (listComments fetch c params)) =
     [baseUrl c @ ''/comments'' @ buildQueryString params]"
  "map url (snd (getComment fetch c commentId bodyFormat)) =
     [baseUrl c @ ''/comments/'' @ commentId @ (if truthy_str bodyFormat then ''?body-format='' @ the bodyFormat else [])]"
  "map url (snd (createComment fetch c input)) =
     [baseUrl c @ ''/comments'']"
  "map url (snd (updateComment fetch c commentId input)) =
     [baseUrl c @ ''/comments/'' @ commentId]"
  "map url (snd (deleteComment fetch c commentId)) =
     [baseUrl c @ ''/comments/'' @ commentId]"
  "map url (snd (listAttachments fetch c params)) =
     [baseUrl c @ ''/attachments'' @ buildQueryString params]"
  "map url (snd (getAttachment fetch c attachmentId)) =
     [baseUrl c @ ''/attachments/'' @ attachmentId]"
  "map url (snd (deleteAttachment fetch c attachmentId purge)) =
     [baseUrl c @ ''/attachments/'' @ attachmentId @ (if purge then ''?purge=true'' else [])]"
  "map url (snd (getAttachmentLabels fetch c attachmentId params)) =
     [baseUrl c @ ''/attachments/'' @ attachmentId @ ''/labels'' @ buildQueryString params]"
  "map url (snd (listLabels fetch c params)) =
     [baseUrl c @ ''/labels'' @ buildQueryString params]"
  "map url (snd (getLabel fetch c labelId)) =
     [baseUrl c @ ''/labels/'' @ labelId]"
  "map url (snd (getLabelPages fetch c labelId params)) =
     [baseUrl c @ ''/labels/'' @ labelId @ ''/pages'' @ buildQueryString params]"
  "map url (snd (getLabelBlogPosts fetch c labelId params)) =
     [baseUrl c @ ''/labels/'' @ labelId @ ''/blogposts'' @ buildQueryString params]"
  "map url (snd (listTasks fetch c params)) =
     [baseUrl c @ ''/tasks'' @ buildQueryString params]"
  "map url (snd (getTask fetch c taskId)) =
     [baseUrl c @ ''/tasks/'' @ taskId]"
  "map url (snd (updateTask fetch c taskId input)) =
     [baseUrl c @ ''/tasks/'' @ taskId]"
  "map url (snd (listUsers fetch c params)) =
     [baseUrl c @ ''/users'' @ buildQueryString params]"
  "map url (snd (getUser fetch c accountId)) =
     [baseUrl c @ ''/users/'' @ accountId]"
  "map url (snd (listCustomContent fetch c params)) =
     [baseUrl c @ ''/custom-content'' @ buildQueryString params]"
  "map url (snd (getCustomContent fetch c customContentId bodyFormat)) =
     [baseUrl c @ ''/custom-content/'' @ customContentId @ (if truthy_str bodyFormat then ''?body-format='' @ the bodyFormat else [])]"
  "map url (snd (createCustomContent fetch c input)) =
     [baseUrl c @ ''/custom-content'']"
  "map url (snd (updateCustomContent fetch c customContentId input)) =
     [baseUrl c @ ''/custom-content/'' @ customContentId]"
  "map url (snd (deleteCustomContent fetch c customContentId purge)) =
     [baseUrl c @ ''/custom-content/'' @ customContentId @ (if purge then ''?purge=true'' else [])]"
  "map url (snd (getSpacePermissions fetch c spaceId params)) =
     [baseUrl c @ ''/spaces/'' @ spaceId @ ''/permissions'' @ buildQueryString params]"
  "map url (snd (createSpacePermission fetch c spaceId input)) =
     [baseUrl c @ ''/spaces/'' @ spaceId @ ''/permissions'']"
  "map url (snd (deleteSpacePermission fetch c spaceId permissionId)) =
     [baseUrl c @ ''/spaces/'' @ spaceId @ ''/permissions/'' @ permissionId]"
  "map url (snd (getSpaceProperties fetch c spaceId params)) =
     [baseUrl c @ ''/spaces/'' @ spaceId @ ''/properties'' @ buildQueryString params]"
  "map url (snd (getSpaceProperty fetch c spaceId propertyKey)) =
     [baseUrl c @ ''/spaces/'' @ spaceId @ ''/properties/'' @ propertyKey]"
  "map url (snd (createSpaceProperty fetch c spaceId input)) =
     [baseUrl c @ ''/spaces/'' @ spaceId @ ''/properties'']"
  "map url (snd (updateSpaceProperty fetch c spaceId propertyKey input)) =
     [baseUrl c @ ''/spaces/'' @ spaceId @ ''/properties/'' @ propertyKey]"
  "map url (snd (deleteSpaceProperty fetch c spaceId propertyKey)) =
     [baseUrl c @ ''/spaces/'' @ spaceId @ ''/properties/'' @ propertyKey]"
  "map url (snd (listDatabases fetch c params)) =
     [baseUrl c @ ''/databases'' @ buildQueryString params]"
  "map url (snd (getDatabase fetch c databaseId)) =
     [baseUrl c @ ''/databases/'' @ databaseId]"
  "map url (snd (listFolders fetch c params)) =
     [baseUrl c @ ''/folders'' @ buildQueryString params]"
  "map url (snd (getFolder fetch c folderId)) =
     [baseUrl c @ ''/folders/'' @ folderId]"
  "map url (snd (listWhiteboards fetch c params)) =
     [baseUrl c @ ''/whiteboards'' @ buildQueryString params]"
  "map url (snd (getWhiteboard fetch c whiteboardId)) =
     [baseUrl c @ ''/whiteboards/'' @ whiteboardId]"
  by (simp_all add: listSpaces_def getSpace_def createSpace_def deleteSpace_def
      listPages_def getPage_def createPage_def updatePage_def
      deletePage_def getPagesBySpaceId_def getPageChildren_def getPageAncestors_def
      getPageDescendants_def getPageLabels_def addPageLabels_def removePageLabel_def
      getPageLikes_def likePage_def unlikePage_def getPageVersions_def
      getPageVersion_def getPageProperties_def getPageProperty_def createPageProperty_def
      updatePageProperty_def deletePageProperty_def getPageAttachments_def getPageComments_def
      getPageOperations_def listBlogPosts_def getBlogPost_def createBlogPost_def
      updateBlogPost_def deleteBlogPost_def getBlogPostsBySpaceId_def getBlogPostLabels_def
      addBlogPostLabels_def removeBlogPostLabel_def getBlogPostVersions_def getBlogPostAttachments_def
      getBlogPostComments_def listComments_def getComment_def createComment_def
      updateComment_def deleteComment_def listAttachments_def getAttachment_def
      deleteAttachment_def getAttachmentLabels_def listLabels_def getLabel_def
      getLabelPages_def getLabelBlogPosts_def listTasks_def getTask_def
      updateTask_def listUsers_def getUser_def listCustomContent_def
      getCustomContent_def createCustomContent_def updateCustomContent_def deleteCustomContent_def
      getSpacePermissions_def createSpacePermission_def deleteSpacePermission_def getSpaceProperties_def
      getSpaceProperty_def createSpaceProperty_def updateSpaceProperty_def deleteSpaceProperty_def
      listDatabases_def getDatabase_def listFolders_def getFolder_def
      listWhiteboards_def getWhiteboard_def
      request_sent dropped_sent read_results_sent url_outgoing)

lemma search_uses_legacy_api:
  "\<exists>q. map url (snd (search fetch c cql params)) = [searchBaseUrl c @ ''/search?'' @ q]"
  by (simp add: search_def request_sent url_outgoing Let_def)

text \<open>
  C3.  Credentials with a cloud ID and no domain pass validation, and the client builds
  both base endpoints from the empty domain: the cloud ID is in neither.  (The lemmas
  above give the rest: both endpoints are built from the domain alone, and only
  \<open>search\<close> uses the legacy one.)
\<close>

theorem cloud_id_not_used:
  "validateCredentials cloud_only_credentials = Inr ()
   \<and> cloudId cloud_only_credentials = Some ''11111111-2222''
   \<and> baseUrl cloud_only_credentials = ''https://.atlassian.net/wiki/api/v2''
   \<and> searchBaseUrl cloud_only_credentials = ''https://.atlassian.net/wiki/rest/api''
   \<and> map url (snd (getSpace fetch cloud_only_credentials ''42''))
       = [''https://.atlassian.net/wiki/api/v2/spaces/42'']"
  by (simp add: cloud_only_credentials_def validateCredentials_def truthy_str_def baseUrl_def
      searchBaseUrl_def getSpace_def request_sent url_outgoing)

section \<open>Deleting a page\<close>








section \<open>Search tools\<close>

subsection \<open>The date functions\<close>










subsection \<open>The cutoff date\<close>
























subsection \<open>What the search tools send\<close>

lemma form_encode_names:
  "form_encode ''cql'' = ''cql''" "form_encode ''limit'' = ''limit''"
  "form_encode ''excerpt'' = ''excerpt''" "form_encode ''true'' = ''true''"
  by (simp_all add: form_encode_def form_encode_char_def is_alnum_def)

lemma search_with_limit:
  "search fetch c cql \<lparr> limit = Some lim, cursor = None, excerpt = Some True \<rparr>
     = request fetch c
         (''/search?cql='' @ form_encode cql
          @ (if lim \<noteq> 0 then ''&limit='' @ form_encode (show_int lim) else [])
          @ ''&excerpt=true'')
         no_options True"
  by (simp add: search_def sp_toString_def form_encode_names)

lemma request_result:
  "fst (request fetch c endpoint options useSearchApi)
     = respond endpoint (fetch (outgoing_request c endpoint options useSearchApi))"
  by (simp add: request_def Let_def)

lemma search_result_parts:
  "fst (search_result format r)
     = (case fst r of Inl error \<Rightarrow> FormatError error
        | Inr result \<Rightarrow> FormatResponse result format ''search'')"
  by (cases r) (simp add: search_result_def split: sum.splits)

lemma search_tool_parts:
  "snd (search_result format
         (search fetch c cql \<lparr> limit = Some lim, cursor = None, excerpt = Some True \<rparr>))
     = [outgoing_request c
          (''/search?cql='' @ form_encode cql
           @ (if lim \<noteq> 0 then ''&limit='' @ form_encode (show_int lim) else [])
           @ ''&excerpt=true'')
          no_options True]"
  "fst (search_result format
         (search fetch c cql \<lparr> limit = Some lim, cursor = None, excerpt = Some True \<rparr>))
     = (case respond
               (''/search?cql='' @ form_encode cql
                @ (if lim \<noteq> 0 then ''&limit='' @ form_encode (show_int lim) else [])
                @ ''&excerpt=true'')
               (fetch (outgoing_request c
                  (''/search?cql='' @ form_encode cql
                   @ (if lim \<noteq> 0 then ''&limit='' @ form_encode (show_int lim) else [])
                   @ ''&excerpt=true'')
                  no_options True)) of
          Inl error \<Rightarrow> FormatError error
        | Inr result \<Rightarrow> FormatResponse result format ''search'')"
  unfolding search_with_limit search_result_parts search_result_sent
  by (simp_all only: request_sent request_result)

lemma form_encode_25: "form_encode (show_int 25) = ''25''"
  by (simp add: show_int_def show_nat.simps digit_char_def form_encode_def form_encode_char_def
      is_alnum_def)

lemma form_encode_label_important: \<open>form_encode ''label="important" AND type=page'' = ''label%3D%22important%22+AND+type%3Dpage''\<close>
  by (simp add: form_encode_def form_encode_char_def is_alnum_def percent_byte_def hex_digit_def)




lemma search_by_label_cql_text:
  \<open>search_by_label_cql label contentType spaceKey
     = ''label="''
       @ concat (map (\<lambda>ch. if ch = CHR 0x22 then [CHR 0x5C, CHR 0x22] else [ch]) label)
       @ ''"''
       @ (case contentType of None \<Rightarrow> [] | Some t \<Rightarrow> '' AND type='' @ content_type_text t)
       @ (case spaceKey of
            None \<Rightarrow> []
          | Some k \<Rightarrow> if k = [] then [] else '' AND space.key="'' @ k @ ''"'')\<close>
  by (simp add: search_by_label_cql_def escape_quotes_def truthy_str_def split: option.splits)

subsection \<open>Search by label\<close>

text \<open>
  For every input the label tool sends one request, to the legacy search endpoint,
  whose \<open>cql\<close> parameter is \<open>label="\<close>, the label with a backslash put before each of
  its double quotes, \<open>"\<close>, and the filters that were given; it returns the formatted
  result or the formatted error.
\<close>

lemma search_by_label_tool:
  \<open>let cql = ''label="''
         @ concat (map (\<lambda>ch. if ch = CHR 0x22 then [CHR 0x5C, CHR 0x22] else [ch]) label)
         @ ''"''
         @ (case contentType of None \<Rightarrow> [] | Some t \<Rightarrow> '' AND type='' @ content_type_text t)
         @ (case spaceKey of
              None \<Rightarrow> []
            | Some k \<Rightarrow> if k = [] then [] else '' AND space.key="'' @ k @ ''"'');
       ep = ''/search?cql='' @ form_encode cql
         @ (if lim \<noteq> 0 then ''&limit='' @ form_encode (show_int lim) else [])
         @ ''&excerpt=true'';
       req = outgoing_request c ep no_options True
   in snd (confluence_search_by_label fetch c label contentType spaceKey lim format) = [req]
      \<and> url req = searchBaseUrl c @ ep
      \<and> fst (confluence_search_by_label fetch c label contentType spaceKey lim format)
          = (case respond ep (fetch req) of
               Inl error \<Rightarrow> FormatError error
             | Inr result \<Rightarrow> FormatResponse result format ''search'')\<close>
  unfolding Let_def confluence_search_by_label_def search_tool_parts
    search_by_label_cql_text [symmetric]
  by (simp add: url_outgoing)

text \<open>The scenario: label \<open>important\<close>, content type \<open>page\<close>.\<close>

lemma search_by_label_important:
  \<open>search_by_label_cql ''important'' (Some Page) None = ''label="important" AND type=page''
   \<and> map url (snd (confluence_search_by_label fetch c ''important'' (Some Page) None 25 format))
       = [searchBaseUrl c
          @ ''/search?cql=label%3D%22important%22+AND+type%3Dpage&limit=25&excerpt=true'']\<close>
proof -
  have cql: \<open>search_by_label_cql ''important'' (Some Page) None
      = ''label="important" AND type=page''\<close>
    by (simp add: search_by_label_cql_def escape_quotes_def truthy_str_def)
  show ?thesis
    unfolding confluence_search_by_label_def search_tool_parts cql
    by (simp add: url_outgoing form_encode_label_important form_encode_25)
qed

text \<open>
  What the replacement achieves: in the escaped label a backslash stands right before
  every double quote.
\<close>

lemma preceded_append:
  assumes "\<forall>i<length xs. xs ! i = q \<longrightarrow> 0 < i \<and> xs ! (i - 1) = b"
    and "\<forall>i<length ys. ys ! i = q \<longrightarrow> 0 < i \<and> ys ! (i - 1) = b"
  shows "\<forall>i<length (xs @ ys). (xs @ ys) ! i = q \<longrightarrow> 0 < i \<and> (xs @ ys) ! (i - 1) = b"
proof (intro allI impI)
  fix i
  assume i: "i < length (xs @ ys)" and q: "(xs @ ys) ! i = q"
  show "0 < i \<and> (xs @ ys) ! (i - 1) = b"
  proof (cases "i < length xs")
    case True
    then have "xs ! i = q"
      using q by (simp add: nth_append)
    then have "0 < i \<and> xs ! (i - 1) = b"
      using assms(1) True by blast
    moreover have "i - 1 < length xs"
      using True by simp
    ultimately show ?thesis
      by (simp add: nth_append)
  next
    case False
    define j where "j = i - length xs"
    have "j < length ys" and "ys ! j = q"
      using i q False by (simp_all add: nth_append j_def)
    then have j: "0 < j \<and> ys ! (j - 1) = b"
      using assms(2) by blast
    then have "\<not> i - 1 < length xs" and "i - 1 - length xs = j - 1"
      using False by (simp_all add: j_def) linarith+
    then show ?thesis
      using j False by (simp add: nth_append j_def)
  qed
qed

lemma escape_quotes_preceded:
  "\<forall>i<length (escape_quotes s). escape_quotes s ! i = CHR 0x22
      \<longrightarrow> 0 < i \<and> escape_quotes s ! (i - 1) = CHR 0x5C"
proof (induction s)
  case Nil
  show ?case by (simp add: escape_quotes_def)
next
  case (Cons c s)
  have e: "escape_quotes (c # s)
      = (if c = CHR 0x22 then [CHR 0x5C, CHR 0x22] else [c]) @ escape_quotes s"
    by (simp add: escape_quotes_def)
  have "\<forall>i<length (if c = CHR 0x22 then [CHR 0x5C, CHR 0x22] else [c]).
      (if c = CHR 0x22 then [CHR 0x5C, CHR 0x22] else [c]) ! i = CHR 0x22
      \<longrightarrow> 0 < i \<and> (if c = CHR 0x22 then [CHR 0x5C, CHR 0x22] else [c]) ! (i - 1) = CHR 0x5C"
    by (simp add: less_Suc_eq)
  then show ?case
    unfolding e using Cons.IH by (rule preceded_append)
qed

text \<open>
  C5.  For the label that is a backslash followed by a double quote, the tool sends the
  query \<open>label="\\""\<close>: the backslash of the label is left as it is, so the two
  backslashes read as one escaped backslash and the label's double quote, at position 9,
  is not escaped.
\<close>

theorem search_by_label_backslash_quote:
  \<open>search_by_label_cql [CHR 0x5C, CHR 0x22] None None
     = ''label="'' @ [CHR 0x5C, CHR 0x5C, CHR 0x22] @ ''"''
   \<and> search_by_label_cql [CHR 0x5C, CHR 0x22] None None ! 9 = CHR 0x22
   \<and> \<not> escaped_at (search_by_label_cql [CHR 0x5C, CHR 0x22] None None) 9
   \<and> map url (snd (confluence_search_by_label fetch c [CHR 0x5C, CHR 0x22] None None 25 format))
       = [searchBaseUrl c @ ''/search?cql=label%3D%22%5C%5C%22%22&limit=25&excerpt=true'']\<close>
proof -
  have cql: \<open>search_by_label_cql [CHR 0x5C, CHR 0x22] None None
      = ''label="'' @ [CHR 0x5C, CHR 0x5C, CHR 0x22] @ ''"''\<close>
    by (simp add: search_by_label_cql_def escape_quotes_def truthy_str_def)
  have enc: \<open>form_encode (''label="'' @ [CHR 0x5C, CHR 0x5C, CHR 0x22] @ ''"'')
      = ''label%3D%22%5C%5C%22%22''\<close>
    by (simp add: form_encode_def form_encode_char_def is_alnum_def percent_byte_def hex_digit_def)
  have sent: \<open>map url (snd (confluence_search_by_label fetch c [CHR 0x5C, CHR 0x22] None None 25
        format))
      = [searchBaseUrl c @ ''/search?cql=label%3D%22%5C%5C%22%22&limit=25&excerpt=true'']\<close>
    unfolding confluence_search_by_label_def search_tool_parts cql
    using enc by (simp add: url_outgoing form_encode_25)
  show ?thesis
    unfolding cql using sent cql by (simp add: escaped_at_def)
qed

subsection \<open>Recently modified content\<close>






section \<open>Paginated rendering\<close>

lemma hasMore_iff:
  "hasMore data \<longleftrightarrow> (\<exists>l s. links data = Some l \<and> next_link l = Some s \<and> s \<noteq> [])"
  by (auto simp add: hasMore_def truthy_str_def split: option.splits)

lemma paginated_lines_head:
  "take 3 (paginated_lines fmt data entityType)
     = [''## '' @ capitalize entityType, '''', ''**Showing:** '' @ show_nat (length (results data))]"
  by (simp add: paginated_lines_def Let_def)

lemma paginated_lines_flag:
  "paginated_lines fmt data entityType ! 3 = ''**More available:** Yes'' \<longleftrightarrow> hasMore data"
  by (auto simp add: paginated_lines_def Let_def nth_append)

lemma paginated_lines_empty:
  "results data = [] \<Longrightarrow>
     paginated_lines fmt data entityType
       = [''## '' @ capitalize entityType, '''', ''**Showing:** 0'']
         @ (if hasMore data then [''**More available:** Yes''] else [])
         @ ['''', ''_No items found._'']"
  by (simp add: paginated_lines_def Let_def show_nat.simps digit_char_def)

text \<open>
  C8 (as amended).  The rendering is the lines joined by newlines.  The first three
  lines are the heading, an empty line and the count; the fourth line is the
  more-available flag exactly when \<open>_links.next\<close> is there and not empty.  A response
  with no items renders those lines, an empty line and the placeholder
  \<open>_No items found._\<close>, with no table.
\<close>

theorem paginated_markdown_flag_and_placeholder:
  "formatPaginatedAsMarkdown fmt data entityType
     = join [CHR 0x0A] (paginated_lines fmt data entityType)
   \<and> take 3 (paginated_lines fmt data entityType)
       = [''## '' @ capitalize entityType, '''', ''**Showing:** '' @ show_nat (length (results data))]
   \<and> (paginated_lines fmt data entityType ! 3 = ''**More available:** Yes''
        \<longleftrightarrow> (\<exists>l s. links data = Some l \<and> next_link l = Some s \<and> s \<noteq> []))
   \<and> (results data = [] \<longrightarrow>
        paginated_lines fmt data entityType
          = [''## '' @ capitalize entityType, '''', ''**Showing:** 0'']
            @ (if \<exists>l s. links data = Some l \<and> next_link l = Some s \<and> s \<noteq> []
               then [''**More available:** Yes''] else [])
            @ ['''', ''_No items found._''])"
  using paginated_lines_empty [of data fmt entityType]
  by (simp add: formatPaginatedAsMarkdown_def paginated_lines_head paginated_lines_flag
      hasMore_iff)

theorem paginated_markdown_flag_and_placeholder_witness:
  "paginated_lines row_marks first_page_response ''pages''
     = [''## Pages'', '''', ''**Showing:** 0'', ''**More available:** Yes'', '''', ''_No items found._'']
   \<and> paginated_lines row_marks first_page_response ''pages'' ! 3 = ''**More available:** Yes''
   \<and> paginated_lines row_marks last_page_response ''pages'' ! 3 \<noteq> ''**More available:** Yes''"
  using paginated_markdown_flag_and_placeholder [of row_marks first_page_response "''pages''"]
    paginated_markdown_flag_and_placeholder [of row_marks last_page_response "''pages''"]
  by (simp add: first_page_response_def last_page_response_def capitalize_def to_upper_def)

text \<open>
  The claim as first stated fails on a response whose \<open>_links.next\<close> is there with the
  empty string: the flag line is not printed.
\<close>

theorem next_empty_counterexample:
  "links empty_next_response = Some \<lparr> next_link = Some [], base_link = None \<rparr>
   \<and> formatPaginatedAsMarkdown row_marks empty_next_response ''pages''
       = join [CHR 0x0A] [''## Pages'', '''', ''**Showing:** 0'', '''', ''_No items found._'']
   \<and> ''**More available:** Yes'' \<notin> set (paginated_lines row_marks empty_next_response ''pages'')"
  by (simp add: empty_next_response_def formatPaginatedAsMarkdown_def paginated_lines_def
      hasMore_def truthy_str_def capitalize_def to_upper_def show_nat.simps digit_char_def)

end
